theory Spec2Isabelle
  imports Complex_Main "HOL-Library.Sublist" "HOL-Library.AList" "HOL-Library.Multiset"
begin

section \<open>Python values and the expressions of the scoring function\<close>

text \<open>
  The record passed to \<open>calculate_disease_risk\<close> is a Python dict from field names to
  values. A value is \<open>None\<close>, an int, a float or a str. A finite float is modelled by the
  rational number it denotes: the only operations the program applies to numbers are the
  comparisons \<open>>\<close> and \<open><\<close> against a literal, and Python compares ints and floats by
  their exact values. The three non-finite floats are kept apart.
  A str is represented by the bytes of its UTF-8 encoding, so an ASCII str is the list of
  its characters. The encoding is one-to-one, and a str occurs in another exactly when its
  bytes occur in the bytes of the other: \<open>==\<close> and \<open>in\<close> on strs are equality and
  containment of the lists.
\<close>

datatype pyfloat = Finite rat | PosInf | NegInf | NaN

datatype pyval = PNone | PInt int | PFloat pyfloat | PStr string

datatype error =
    KeyError string
  | TypeError
  | AttributeError
  | IntegrityError string
  | OverflowError

type_synonym pydict = "string \<rightharpoonup> pyval"

text \<open>Sequencing of computations that may raise: the first exception wins.\<close>

definition sbind :: "error + 'a \<Rightarrow> ('a \<Rightarrow> error + 'b) \<Rightarrow> error + 'b" where
  "sbind m f = (case m of Inl e \<Rightarrow> Inl e | Inr v \<Rightarrow> f v)"

text \<open>\<open>data[k]\<close> raises \<open>KeyError\<close> on a missing key; \<open>data.get(k, d)\<close> does not.\<close>

definition getitem :: "pydict \<Rightarrow> string \<Rightarrow> error + pyval" where
  "getitem data k = (case data k of None \<Rightarrow> Inl (KeyError k) | Some v \<Rightarrow> Inr v)"

definition get_default :: "pydict \<Rightarrow> string \<Rightarrow> pyval \<Rightarrow> pyval" where
  "get_default data k d = (case data k of None \<Rightarrow> d | Some v \<Rightarrow> v)"

text \<open>
  \<open>v > c\<close>, \<open>v < c\<close> and \<open>v <= c\<close> for a numeric literal \<open>c\<close>: a \<open>TypeError\<close> when
  \<open>v\<close> is \<open>None\<close> or a str, false whenever \<open>v\<close> is NaN.
\<close>

fun py_gt :: "pyval \<Rightarrow> rat \<Rightarrow> error + bool" where
  "py_gt (PInt i) c = Inr (c < of_int i)"
| "py_gt (PFloat (Finite q)) c = Inr (c < q)"
| "py_gt (PFloat PosInf) c = Inr True"
| "py_gt (PFloat NegInf) c = Inr False"
| "py_gt (PFloat NaN) c = Inr False"
| "py_gt PNone c = Inl TypeError"
| "py_gt (PStr s) c = Inl TypeError"

fun py_lt :: "pyval \<Rightarrow> rat \<Rightarrow> error + bool" where
  "py_lt (PInt i) c = Inr (of_int i < c)"
| "py_lt (PFloat (Finite q)) c = Inr (q < c)"
| "py_lt (PFloat PosInf) c = Inr False"
| "py_lt (PFloat NegInf) c = Inr True"
| "py_lt (PFloat NaN) c = Inr False"
| "py_lt PNone c = Inl TypeError"
| "py_lt (PStr s) c = Inl TypeError"

fun py_le :: "pyval \<Rightarrow> rat \<Rightarrow> error + bool" where
  "py_le (PInt i) c = Inr (of_int i \<le> c)"
| "py_le (PFloat (Finite q)) c = Inr (q \<le> c)"
| "py_le (PFloat PosInf) c = Inr False"
| "py_le (PFloat NegInf) c = Inr True"
| "py_le (PFloat NaN) c = Inr False"
| "py_le PNone c = Inl TypeError"
| "py_le (PStr s) c = Inl TypeError"

text \<open>
  \<open>str.lower()\<close>. On an ASCII str it maps the letters A to Z to a to z and keeps every
  other character. On a str with a character outside ASCII it follows the case mappings of
  the Unicode database, which are not in the program: there the result is whatever the
  parameter \<open>ulower\<close> gives, and nothing is assumed about it. Every function that
  lower-cases a field takes this parameter. Calling \<open>.lower()\<close> on a value that is not
  a str raises \<open>AttributeError\<close>.
\<close>

definition lower_char :: "char \<Rightarrow> char" where
  "lower_char c =
     (case map_of (zip ''ABCDEFGHIJKLMNOPQRSTUVWXYZ'' ''abcdefghijklmnopqrstuvwxyz'') c of
        None \<Rightarrow> c
      | Some d \<Rightarrow> d)"

definition is_ascii :: "string \<Rightarrow> bool" where
  "is_ascii s = list_all (\<lambda>c. \<not> digit7 c) s"

definition ascii_lower :: "string \<Rightarrow> string" where
  "ascii_lower s = map lower_char s"

definition lower :: "(string \<Rightarrow> string) \<Rightarrow> string \<Rightarrow> string" where
  "lower ulower s = (if is_ascii s then ascii_lower s else ulower s)"

definition py_lower :: "(string \<Rightarrow> string) \<Rightarrow> pyval \<Rightarrow> error + string" where
  "py_lower ulower v = (case v of PStr s \<Rightarrow> Inr (lower ulower s) | _ \<Rightarrow> Inl AttributeError)"

text \<open>\<open>sub in s\<close> on two strs: \<open>sub\<close> occurs in \<open>s\<close> as a contiguous piece.\<close>

fun py_in_str :: "string \<Rightarrow> string \<Rightarrow> bool" where
  "py_in_str sub [] = (sub = [])"
| "py_in_str sub (c # cs) = (prefix sub (c # cs) \<or> py_in_str sub cs)"

text \<open>
  \<open>v in ['a', 'b']\<close>: equality with one of the listed strs. A value that is not a str
  equals none of them, and no exception is raised.
\<close>

definition py_in_list :: "pyval \<Rightarrow> string list \<Rightarrow> bool" where
  "py_in_list v xs = (case v of PStr s \<Rightarrow> s \<in> set xs | _ \<Rightarrow> False)"

text \<open>\<open>a or b\<close> evaluates \<open>b\<close> only when \<open>a\<close> is false.\<close>

definition py_or :: "error + bool \<Rightarrow> error + bool \<Rightarrow> error + bool" where
  "py_or a b = sbind a (\<lambda>x. if x then Inr True else b)"

text \<open>The tests of the function, as the expressions it writes.\<close>

definition num_gt :: "pydict \<Rightarrow> string \<Rightarrow> rat \<Rightarrow> error + bool" where
  "num_gt data k c = sbind (getitem data k) (\<lambda>v. py_gt v c)"

definition num_lt :: "pydict \<Rightarrow> string \<Rightarrow> rat \<Rightarrow> error + bool" where
  "num_lt data k c = sbind (getitem data k) (\<lambda>v. py_lt v c)"

definition gender_is_male :: "(string \<Rightarrow> string) \<Rightarrow> pydict \<Rightarrow> error + bool" where
  "gender_is_male ulower data =
     sbind (getitem data ''gender'') (\<lambda>v. sbind (py_lower ulower v) (\<lambda>s. Inr (s = ''male'')))"

definition field_in :: "pydict \<Rightarrow> string \<Rightarrow> string list \<Rightarrow> error + bool" where
  "field_in data k xs = sbind (getitem data k) (\<lambda>v. Inr (py_in_list v xs))"

definition family_history_has :: "(string \<Rightarrow> string) \<Rightarrow> pydict \<Rightarrow> string \<Rightarrow> error + bool" where
  "family_history_has ulower data sub =
     sbind (py_lower ulower (get_default data ''family_history'' (PStr '''')))
       (\<lambda>s. Inr (py_in_str sub s))"

definition hba1c_gt :: "pydict \<Rightarrow> rat \<Rightarrow> error + bool" where
  "hba1c_gt data c = py_gt (get_default data ''hba1c'' (PInt 0)) c"

section \<open>The local variables and the statements\<close>

record locals =
  risks :: "(string \<times> int) list"
  recommendations :: "string list"
  cv_risk :: int
  diabetes_risk :: int
  hypertension_risk :: int
  metabolic_risk :: int
  stroke_risk :: int

type_synonym stmt = "locals \<Rightarrow> error + locals"

definition assign :: "(locals \<Rightarrow> locals) \<Rightarrow> stmt" where
  "assign f s = Inr (f s)"

definition if_stmt :: "error + bool \<Rightarrow> (locals \<Rightarrow> locals) \<Rightarrow> stmt" where
  "if_stmt c f s = (case c of Inl e \<Rightarrow> Inl e | Inr b \<Rightarrow> Inr (if b then f s else s))"

definition if_elif_stmt ::
  "error + bool \<Rightarrow> (locals \<Rightarrow> locals) \<Rightarrow> error + bool \<Rightarrow> (locals \<Rightarrow> locals) \<Rightarrow> stmt" where
  "if_elif_stmt c1 f1 c2 f2 s =
     (case c1 of
        Inl e \<Rightarrow> Inl e
      | Inr b1 \<Rightarrow>
          if b1 then Inr (f1 s)
          else (case c2 of Inl e \<Rightarrow> Inl e | Inr b2 \<Rightarrow> Inr (if b2 then f2 s else s)))"

fun exec :: "stmt list \<Rightarrow> locals \<Rightarrow> error + locals" where
  "exec [] s = Inr s"
| "exec (f # fs) s = (case f s of Inl e \<Rightarrow> Inl e | Inr s' \<Rightarrow> exec fs s')"

text \<open>\<open>recommendations.append(r)\<close> and \<open>risks[name] = v\<close>.\<close>

definition append_rec :: "string \<Rightarrow> locals \<Rightarrow> locals" where
  "append_rec r s = s\<lparr>recommendations := recommendations s @ [r]\<rparr>"

definition set_risk :: "string \<Rightarrow> int \<Rightarrow> locals \<Rightarrow> locals" where
  "set_risk name v s = s\<lparr>risks := AList.update name v (risks s)\<rparr>"

section \<open>calculate_disease_risk\<close>

definition prologue :: "stmt list" where
  "prologue =
    [assign (\<lambda>s. s\<lparr>risks := []\<rparr>),
     assign (\<lambda>s. s\<lparr>recommendations := []\<rparr>)]"

definition cardiovascular_block :: "(string \<Rightarrow> string) \<Rightarrow> pydict \<Rightarrow> stmt list" where
  "cardiovascular_block ulower data =
    [assign (\<lambda>s. s\<lparr>cv_risk := 0\<rparr>),
     if_stmt (num_gt data ''age'' 45) (\<lambda>s. s\<lparr>cv_risk := cv_risk s + 20\<rparr>),
     if_stmt (gender_is_male ulower data) (\<lambda>s. s\<lparr>cv_risk := cv_risk s + 10\<rparr>),
     if_stmt (py_or (num_gt data ''blood_pressure_systolic'' 140)
                    (num_gt data ''blood_pressure_diastolic'' 90))
       (\<lambda>s. append_rec
          ''Monitor blood pressure regularly and consider medication if advised by doctor''
          (s\<lparr>cv_risk := cv_risk s + 25\<rparr>)),
     if_stmt (num_gt data ''cholesterol_total'' 240)
       (\<lambda>s. append_rec ''Follow a low-cholesterol diet and consider statin therapy''
          (s\<lparr>cv_risk := cv_risk s + 20\<rparr>)),
     if_stmt (num_lt data ''cholesterol_hdl'' 40) (\<lambda>s. s\<lparr>cv_risk := cv_risk s + 15\<rparr>),
     if_stmt (num_gt data ''bmi'' 30)
       (\<lambda>s. append_rec ''Weight management through diet and exercise''
          (s\<lparr>cv_risk := cv_risk s + 15\<rparr>)),
     if_stmt (field_in data ''smoking_status'' [''Current smoker'', ''Heavy smoker''])
       (\<lambda>s. append_rec ''Quit smoking immediately - seek professional help if needed''
          (s\<lparr>cv_risk := cv_risk s + 30\<rparr>)),
     if_stmt (family_history_has ulower data ''heart disease'')
       (\<lambda>s. s\<lparr>cv_risk := cv_risk s + 20\<rparr>),
     assign (\<lambda>s. set_risk ''Cardiovascular Disease'' (min (cv_risk s) 100) s)]"

text \<open>The \<open>if\<close>/\<open>elif\<close> on the fasting glucose (lines 158 to 163).\<close>

definition diabetes_glucose_stmt :: "pydict \<Rightarrow> stmt" where
  "diabetes_glucose_stmt data =
     if_elif_stmt (num_gt data ''blood_sugar_fasting'' 126)
       (\<lambda>s. append_rec ''Immediate consultation with endocrinologist required''
          (s\<lparr>diabetes_risk := diabetes_risk s + 40\<rparr>))
       (num_gt data ''blood_sugar_fasting'' 100)
       (\<lambda>s. append_rec ''Monitor blood sugar levels and follow diabetic-friendly diet''
          (s\<lparr>diabetes_risk := diabetes_risk s + 25\<rparr>))"

definition diabetes_block :: "(string \<Rightarrow> string) \<Rightarrow> pydict \<Rightarrow> stmt list" where
  "diabetes_block ulower data =
    [assign (\<lambda>s. s\<lparr>diabetes_risk := 0\<rparr>),
     if_stmt (num_gt data ''age'' 45) (\<lambda>s. s\<lparr>diabetes_risk := diabetes_risk s + 15\<rparr>),
     if_stmt (num_gt data ''bmi'' 25) (\<lambda>s. s\<lparr>diabetes_risk := diabetes_risk s + 20\<rparr>),
     diabetes_glucose_stmt data,
     if_stmt (hba1c_gt data (13 / 2)) (\<lambda>s. s\<lparr>diabetes_risk := diabetes_risk s + 35\<rparr>),
     if_stmt (family_history_has ulower data ''diabetes'')
       (\<lambda>s. s\<lparr>diabetes_risk := diabetes_risk s + 25\<rparr>),
     if_stmt (field_in data ''exercise_frequency'' [''Never'', ''Rarely''])
       (\<lambda>s. append_rec ''Increase physical activity to at least 150 minutes per week''
          (s\<lparr>diabetes_risk := diabetes_risk s + 15\<rparr>)),
     assign (\<lambda>s. set_risk ''Type 2 Diabetes'' (min (diabetes_risk s) 100) s)]"

definition hypertension_block :: "(string \<Rightarrow> string) \<Rightarrow> pydict \<Rightarrow> stmt list" where
  "hypertension_block ulower data =
    [assign (\<lambda>s. s\<lparr>hypertension_risk := 0\<rparr>),
     if_stmt (py_or (num_gt data ''blood_pressure_systolic'' 120)
                    (num_gt data ''blood_pressure_diastolic'' 80))
       (\<lambda>s. s\<lparr>hypertension_risk := hypertension_risk s + 30\<rparr>),
     if_stmt (num_gt data ''age'' 50)
       (\<lambda>s. s\<lparr>hypertension_risk := hypertension_risk s + 20\<rparr>),
     if_stmt (num_gt data ''bmi'' 25)
       (\<lambda>s. s\<lparr>hypertension_risk := hypertension_risk s + 15\<rparr>),
     if_stmt (field_in data ''alcohol_consumption'' [''Heavy drinker'', ''Daily''])
       (\<lambda>s. append_rec ''Reduce alcohol consumption''
          (s\<lparr>hypertension_risk := hypertension_risk s + 20\<rparr>)),
     if_stmt (family_history_has ulower data ''hypertension'')
       (\<lambda>s. s\<lparr>hypertension_risk := hypertension_risk s + 25\<rparr>),
     assign (\<lambda>s. set_risk ''Hypertension'' (min (hypertension_risk s) 100) s)]"

definition metabolic_block :: "pydict \<Rightarrow> stmt list" where
  "metabolic_block data =
    [assign (\<lambda>s. s\<lparr>metabolic_risk := 0\<rparr>),
     if_stmt (num_gt data ''bmi'' 30) (\<lambda>s. s\<lparr>metabolic_risk := metabolic_risk s + 25\<rparr>),
     if_stmt (num_gt data ''blood_sugar_fasting'' 100)
       (\<lambda>s. s\<lparr>metabolic_risk := metabolic_risk s + 20\<rparr>),
     if_stmt (num_lt data ''cholesterol_hdl'' 50)
       (\<lambda>s. s\<lparr>metabolic_risk := metabolic_risk s + 15\<rparr>),
     if_stmt (num_gt data ''blood_pressure_systolic'' 130)
       (\<lambda>s. s\<lparr>metabolic_risk := metabolic_risk s + 20\<rparr>),
     assign (\<lambda>s. set_risk ''Metabolic Syndrome'' (min (metabolic_risk s) 100) s)]"

definition stroke_block :: "(string \<Rightarrow> string) \<Rightarrow> pydict \<Rightarrow> stmt list" where
  "stroke_block ulower data =
    [assign (\<lambda>s. s\<lparr>stroke_risk := 0\<rparr>),
     if_stmt (num_gt data ''age'' 55) (\<lambda>s. s\<lparr>stroke_risk := stroke_risk s + 20\<rparr>),
     if_stmt (num_gt data ''blood_pressure_systolic'' 140)
       (\<lambda>s. s\<lparr>stroke_risk := stroke_risk s + 25\<rparr>),
     if_stmt (field_in data ''smoking_status'' [''Current smoker'', ''Heavy smoker''])
       (\<lambda>s. s\<lparr>stroke_risk := stroke_risk s + 25\<rparr>),
     if_stmt (family_history_has ulower data ''stroke'')
       (\<lambda>s. s\<lparr>stroke_risk := stroke_risk s + 30\<rparr>),
     assign (\<lambda>s. set_risk ''Stroke'' (min (stroke_risk s) 100) s)]"

text \<open>\<open>if not recommendations\<close>: the list is empty.\<close>

definition general_block :: "stmt list" where
  "general_block =
    [(\<lambda>s. if_stmt (Inr (recommendations s = []))
             (append_rec ''Maintain current healthy lifestyle'') s),
     assign (append_rec ''Regular health check-ups every 6-12 months''),
     assign (append_rec ''Follow a balanced diet rich in fruits and vegetables'')]"

definition body :: "(string \<Rightarrow> string) \<Rightarrow> pydict \<Rightarrow> stmt list" where
  "body ulower data =
     prologue @ cardiovascular_block ulower data @ diabetes_block ulower data
       @ hypertension_block ulower data
       @ metabolic_block data @ stroke_block ulower data @ general_block"

text \<open>
  The locals are unbound when the function is entered; every one of them is assigned
  before it is read, so the values they start with here are never seen.
\<close>

definition unbound :: locals where
  "unbound = \<lparr>risks = [], recommendations = [], cv_risk = 0, diabetes_risk = 0,
     hypertension_risk = 0, metabolic_risk = 0, stroke_risk = 0\<rparr>"

definition run :: "(string \<Rightarrow> string) \<Rightarrow> pydict \<Rightarrow> error + locals" where
  "run ulower data = exec (body ulower data) unbound"

definition calculate_disease_risk ::
  "(string \<Rightarrow> string) \<Rightarrow> pydict \<Rightarrow> error + ((string \<times> int) list \<times> string list)" where
  "calculate_disease_risk ulower data =
     (case run ulower data of Inl e \<Rightarrow> Inl e | Inr s \<Rightarrow> Inr (risks s, recommendations s))"

section \<open>The credential store\<close>

text \<open>
  The table \<open>users\<close> of \<open>users.db\<close>: its rows in insertion order, and the largest id
  given so far (the counter SQLite keeps for an \<open>AUTOINCREMENT\<close> key). Text columns
  hold strs; \<open>created_at\<close> is the engine's clock at the insertion, in seconds.
  The clock readings (\<open>CURRENT_TIMESTAMP\<close>, \<open>datetime.now()\<close>) and SHA-256 come from
  outside the program and are parameters of the operations that use them.
  The arguments of the operations are strs, as the login and registration forms pass
  them. A failure of the engine that is not a constraint violation (a file that is locked
  or cannot be read) is outside the model.
\<close>

type_synonym timestamp = nat

record user_row =
  u_id :: nat
  u_username :: string
  u_email :: string
  u_password_hash :: string
  u_full_name :: string
  u_date_of_birth :: string
  u_gender :: string
  u_created_at :: timestamp
  u_last_login :: "timestamp option"

record users_db =
  user_rows :: "user_row list"
  user_seq :: nat

definition hash_password :: "(string \<Rightarrow> string) \<Rightarrow> string \<Rightarrow> string" where
  "hash_password sha256_hex password = sha256_hex password"

definition verify_password :: "(string \<Rightarrow> string) \<Rightarrow> string \<Rightarrow> string \<Rightarrow> bool" where
  "verify_password sha256_hex password hashed \<longleftrightarrow> hash_password sha256_hex password = hashed"

text \<open>
  \<open>username\<close> and \<open>email\<close> are both \<open>UNIQUE\<close>. An insertion that breaks a constraint
  raises \<open>IntegrityError\<close> with a message that names one column: the one whose index the
  engine checks first. Which of the two indexes comes first is the engine's business, so
  the order is a parameter of the model. (SQLite 3.46 names \<open>users.email\<close> when both
  columns collide.)
\<close>

datatype unique_order = Username_first | Email_first

definition unique_violation ::
  "unique_order \<Rightarrow> user_row list \<Rightarrow> string \<Rightarrow> string \<Rightarrow> string option" where
  "unique_violation ord rows username email =
     (let u = (username \<in> set (map u_username rows));
          e = (email \<in> set (map u_email rows))
      in case ord of
           Username_first \<Rightarrow>
             if u then Some ''users.username'' else if e then Some ''users.email'' else None
         | Email_first \<Rightarrow>
             if e then Some ''users.email'' else if u then Some ''users.username'' else None)"

definition insert_user ::
  "unique_order \<Rightarrow> timestamp \<Rightarrow> string \<Rightarrow> string \<Rightarrow> string \<Rightarrow> string \<Rightarrow> string \<Rightarrow> string
     \<Rightarrow> users_db \<Rightarrow> error + users_db" where
  "insert_user ord now username email password_hash full_name dob gender db =
     (case unique_violation ord (user_rows db) username email of
        Some column \<Rightarrow> Inl (IntegrityError (''UNIQUE constraint failed: '' @ column))
      | None \<Rightarrow>
          Inr (db\<lparr>user_rows := user_rows db @
                    [\<lparr>u_id = user_seq db + 1, u_username = username, u_email = email,
                      u_password_hash = password_hash, u_full_name = full_name,
                      u_date_of_birth = dob, u_gender = gender, u_created_at = now,
                      u_last_login = None\<rparr>],
                  user_seq := user_seq db + 1\<rparr>))"

text \<open>
  \<open>create_user\<close> returns its pair, or lets an exception other than \<open>IntegrityError\<close>
  through; the second component is the table afterwards.
\<close>

definition create_user ::
  "(string \<Rightarrow> string) \<Rightarrow> unique_order \<Rightarrow> timestamp \<Rightarrow> string \<Rightarrow> string \<Rightarrow> string \<Rightarrow> string
     \<Rightarrow> string \<Rightarrow> string \<Rightarrow> users_db \<Rightarrow> (error + bool \<times> string) \<times> users_db" where
  "create_user sha256_hex ord now username email password full_name dob gender db =
     (let password_hash = hash_password sha256_hex password
      in case insert_user ord now username email password_hash full_name dob gender db of
           Inr db' \<Rightarrow> (Inr (True, ''Account created successfully!''), db')
         | Inl (IntegrityError e) \<Rightarrow>
             if py_in_str ''username'' e then (Inr (False, ''Username already exists!''), db)
             else if py_in_str ''email'' e then (Inr (False, ''Email already registered!''), db)
             else (Inr (False, ''Registration failed!''), db)
         | Inl other \<Rightarrow> (Inl other, db))"

record user_info =
  info_id :: nat
  info_username :: string
  info_full_name :: string
  info_email :: string

text \<open>\<open>cursor.fetchone()\<close> after the \<open>SELECT ... WHERE username = ?\<close>.\<close>

definition fetch_by_username :: "users_db \<Rightarrow> string \<Rightarrow> user_row option" where
  "fetch_by_username db username = find (\<lambda>r. u_username r = username) (user_rows db)"

definition update_last_login :: "timestamp \<Rightarrow> nat \<Rightarrow> users_db \<Rightarrow> users_db" where
  "update_last_login now uid db =
     db\<lparr>user_rows :=
          map (\<lambda>r. if u_id r = uid then r\<lparr>u_last_login := Some now\<rparr> else r) (user_rows db)\<rparr>"

definition authenticate_user ::
  "(string \<Rightarrow> string) \<Rightarrow> timestamp \<Rightarrow> string \<Rightarrow> string \<Rightarrow> users_db
     \<Rightarrow> (bool \<times> user_info option) \<times> users_db" where
  "authenticate_user sha256_hex now username password db =
     (case fetch_by_username db username of
        None \<Rightarrow> ((False, None), db)
      | Some user \<Rightarrow>
          if verify_password sha256_hex password (u_password_hash user)
          then ((True, Some \<lparr>info_id = u_id user, info_username = username,
                              info_full_name = u_full_name user,
                              info_email = u_email user\<rparr>),
                update_last_login now (u_id user) db)
          else ((False, None), db))"

section \<open>The prediction store\<close>

text \<open>
  A row of the table \<open>predictions\<close>: the key, the owner, the sixteen values bound from the
  patient record as they were passed, the three texts built from the results, and the
  engine's clock at the insertion.
\<close>

record prediction_row =
  p_id :: nat
  p_user_id :: nat
  p_patient_name :: pyval
  p_age :: pyval
  p_gender :: pyval
  p_blood_pressure_systolic :: pyval
  p_blood_pressure_diastolic :: pyval
  p_cholesterol_total :: pyval
  p_cholesterol_hdl :: pyval
  p_cholesterol_ldl :: pyval
  p_blood_sugar_fasting :: pyval
  p_blood_sugar_random :: pyval
  p_hba1c :: pyval
  p_bmi :: pyval
  p_smoking_status :: pyval
  p_alcohol_consumption :: pyval
  p_exercise_frequency :: pyval
  p_family_history :: pyval
  p_predicted_diseases :: string
  p_risk_scores :: string
  p_recommendations :: string
  p_created_at :: timestamp

record predictions_db =
  prediction_rows :: "prediction_row list"
  prediction_seq :: nat

text \<open>\<open>sep.join(xs)\<close>, \<open>str\<close> of an int, and \<open>str\<close> of a dict from strs to ints.\<close>

fun join :: "string \<Rightarrow> string list \<Rightarrow> string" where
  "join sep [] = []"
| "join sep [x] = x"
| "join sep (x # y # ys) = x @ sep @ join sep (y # ys)"

fun digits :: "nat \<Rightarrow> nat \<Rightarrow> string" where
  "digits 0 n = []"
| "digits (Suc fuel) n =
     (if n < 10 then [char_of (48 + n)]
      else digits fuel (n div 10) @ [char_of (48 + n mod 10)])"

definition str_int :: "int \<Rightarrow> string" where
  "str_int i =
     (if i < 0 then ''-'' @ digits (Suc (nat (- i))) (nat (- i))
      else digits (Suc (nat i)) (nat i))"

text \<open>
  The \<open>repr\<close> of a key is the key between single quotes: that is what Python prints for
  a str without quotes, backslashes or control characters, as the five disease names are.
\<close>

definition repr_str :: "string \<Rightarrow> string" where
  "repr_str s = [CHR 0x27] @ s @ [CHR 0x27]"

definition str_dict :: "(string \<times> int) list \<Rightarrow> string" where
  "str_dict d =
     ''{'' @ join '', '' (map (\<lambda>(k, v). repr_str k @ '': '' @ str_int v) d) @ ''}''"

text \<open>
  Binding a parameter: the \<open>sqlite3\<close> module takes \<open>None\<close>, an int of 64 bits (signed),
  a float or a str, and raises \<open>OverflowError\<close> on a larger int. The engine stores a NaN
  as \<open>NULL\<close>. The conversion to the affinity of the column is left out: the columns hold
  the values bound.
\<close>

definition fits_int64 :: "pyval \<Rightarrow> bool" where
  "fits_int64 v = (case v of PInt i \<Rightarrow> - (2 ^ 63) \<le> i \<and> i < 2 ^ 63 | _ \<Rightarrow> True)"

definition sql_value :: "pyval \<Rightarrow> pyval" where
  "sql_value v = (if v = PFloat NaN then PNone else v)"

text \<open>
  The \<open>INSERT\<close>: \<open>patient_name\<close>, \<open>age\<close> and \<open>gender\<close> are \<open>NOT NULL\<close> (as is
  \<open>user_id\<close>, which is never \<open>None\<close> here), the key is the next of the counter and
  \<open>created_at\<close> defaults to the clock.
\<close>

definition insert_prediction ::
  "timestamp \<Rightarrow> prediction_row \<Rightarrow> predictions_db \<Rightarrow> error + predictions_db" where
  "insert_prediction now r db =
     (if p_patient_name r = PNone
        then Inl (IntegrityError ''NOT NULL constraint failed: predictions.patient_name'')
      else if p_age r = PNone
        then Inl (IntegrityError ''NOT NULL constraint failed: predictions.age'')
      else if p_gender r = PNone
        then Inl (IntegrityError ''NOT NULL constraint failed: predictions.gender'')
      else Inr (db\<lparr>prediction_rows := prediction_rows db @
                      [r\<lparr>p_id := prediction_seq db + 1, p_created_at := now\<rparr>],
                    prediction_seq := prediction_seq db + 1\<rparr>))"

text \<open>
  \<open>save_prediction\<close>: the three texts, then the tuple of parameters (a \<open>KeyError\<close> on
  the first key that is missing), then \<open>execute\<close>, which binds the parameters and runs
  the \<open>INSERT\<close>.
\<close>

definition save_prediction ::
  "timestamp \<Rightarrow> nat \<Rightarrow> pydict \<Rightarrow> (string \<times> int) list \<Rightarrow> string list \<Rightarrow> predictions_db
     \<Rightarrow> error + predictions_db" where
  "save_prediction now user_id patient_data the_risks the_recommendations db =
     (let risks_str = str_dict the_risks;
          recommendations_str = join ''; '' the_recommendations;
          predicted_diseases =
            join '', '' (map (\<lambda>(disease, score). disease @ '': '' @ str_int score @ ''%'') the_risks)
      in
      sbind (getitem patient_data ''patient_name'') (\<lambda>patient_name.
      sbind (getitem patient_data ''age'') (\<lambda>age.
      sbind (getitem patient_data ''gender'') (\<lambda>gender.
      sbind (getitem patient_data ''blood_pressure_systolic'') (\<lambda>systolic.
      sbind (getitem patient_data ''blood_pressure_diastolic'') (\<lambda>diastolic.
      sbind (getitem patient_data ''cholesterol_total'') (\<lambda>total.
      sbind (getitem patient_data ''cholesterol_hdl'') (\<lambda>hdl.
      sbind (getitem patient_data ''cholesterol_ldl'') (\<lambda>ldl.
      sbind (getitem patient_data ''blood_sugar_fasting'') (\<lambda>fasting.
      sbind (getitem patient_data ''blood_sugar_random'') (\<lambda>random.
      sbind (Inr (get_default patient_data ''hba1c'' (PInt 0))) (\<lambda>hba1c.
      sbind (getitem patient_data ''bmi'') (\<lambda>bmi.
      sbind (getitem patient_data ''smoking_status'') (\<lambda>smoking.
      sbind (getitem patient_data ''alcohol_consumption'') (\<lambda>alcohol.
      sbind (getitem patient_data ''exercise_frequency'') (\<lambda>exercise.
      sbind (getitem patient_data ''family_history'') (\<lambda>family.
        if int user_id < 2 ^ 63
           \<and> list_all fits_int64
               [patient_name, age, gender, systolic, diastolic, total, hdl, ldl, fasting,
                random, hba1c, bmi, smoking, alcohol, exercise, family]
        then
          insert_prediction now
            \<lparr>p_id = 0, p_user_id = user_id, p_patient_name = sql_value patient_name,
              p_age = sql_value age, p_gender = sql_value gender,
              p_blood_pressure_systolic = sql_value systolic,
              p_blood_pressure_diastolic = sql_value diastolic,
              p_cholesterol_total = sql_value total, p_cholesterol_hdl = sql_value hdl,
              p_cholesterol_ldl = sql_value ldl, p_blood_sugar_fasting = sql_value fasting,
              p_blood_sugar_random = sql_value random, p_hba1c = sql_value hba1c,
              p_bmi = sql_value bmi, p_smoking_status = sql_value smoking,
              p_alcohol_consumption = sql_value alcohol,
              p_exercise_frequency = sql_value exercise, p_family_history = sql_value family,
              p_predicted_diseases = predicted_diseases, p_risk_scores = risks_str,
              p_recommendations = recommendations_str, p_created_at = 0\<rparr>
            db
        else Inl OverflowError)))))))))))))))))"

text \<open>
  \<open>ORDER BY created_at DESC\<close>: the rows with the largest \<open>created_at\<close> first. SQL leaves
  the order of rows with equal \<open>created_at\<close> open; here they keep the order of the table.
\<close>

fun insert_desc :: "prediction_row \<Rightarrow> prediction_row list \<Rightarrow> prediction_row list" where
  "insert_desc r [] = [r]"
| "insert_desc r (x # xs) =
     (if p_created_at x \<le> p_created_at r then r # x # xs else x # insert_desc r xs)"

definition order_by_created_at_desc :: "prediction_row list \<Rightarrow> prediction_row list" where
  "order_by_created_at_desc rows = foldr insert_desc rows []"

definition get_user_predictions :: "nat \<Rightarrow> predictions_db \<Rightarrow> prediction_row list" where
  "get_user_predictions user_id db =
     order_by_created_at_desc (filter (\<lambda>r. p_user_id r = user_id) (prediction_rows db))"

text \<open>
  A history of submissions: each is a call of \<open>save_prediction\<close> with the clock reading
  at that moment. The first call that raises ends the history.
\<close>

record submission =
  sub_time :: timestamp
  sub_user :: nat
  sub_patient :: pydict
  sub_risks :: "(string \<times> int) list"
  sub_recommendations :: "string list"

fun save_all :: "submission list \<Rightarrow> predictions_db \<Rightarrow> error + predictions_db" where
  "save_all [] db = Inr db"
| "save_all (c # cs) db =
     sbind (save_prediction (sub_time c) (sub_user c) (sub_patient c) (sub_risks c)
              (sub_recommendations c) db)
       (save_all cs)"

section \<open>The scoring rules in closed form\<close>

text \<open>
  The table of the specification: for each disease the sum of the points of the tests
  that hold, and the recommendations they trigger, in the order of the table. A test
  holds when its expression evaluates to \<open>True\<close>; \<open>isOK\<close> says that it evaluates at all.
\<close>

definition isOK :: "error + 'a \<Rightarrow> bool" where
  "isOK c = (case c of Inl e \<Rightarrow> False | Inr v \<Rightarrow> True)"

definition pts :: "error + bool \<Rightarrow> int \<Rightarrow> int" where
  "pts c k = (if c = Inr True then k else 0)"

definition rec_if :: "error + bool \<Rightarrow> string \<Rightarrow> string list" where
  "rec_if c r = (if c = Inr True then [r] else [])"

definition cv_points :: "(string \<Rightarrow> string) \<Rightarrow> pydict \<Rightarrow> int" where
  "cv_points ulower data =
     pts (num_gt data ''age'' 45) 20
   + pts (gender_is_male ulower data) 10
   + pts (py_or (num_gt data ''blood_pressure_systolic'' 140)
                (num_gt data ''blood_pressure_diastolic'' 90)) 25
   + pts (num_gt data ''cholesterol_total'' 240) 20
   + pts (num_lt data ''cholesterol_hdl'' 40) 15
   + pts (num_gt data ''bmi'' 30) 15
   + pts (field_in data ''smoking_status'' [''Current smoker'', ''Heavy smoker'']) 30
   + pts (family_history_has ulower data ''heart disease'') 20"

definition cv_recs :: "pydict \<Rightarrow> string list" where
  "cv_recs data =
     rec_if (py_or (num_gt data ''blood_pressure_systolic'' 140)
                   (num_gt data ''blood_pressure_diastolic'' 90))
       ''Monitor blood pressure regularly and consider medication if advised by doctor''
   @ rec_if (num_gt data ''cholesterol_total'' 240)
       ''Follow a low-cholesterol diet and consider statin therapy''
   @ rec_if (num_gt data ''bmi'' 30) ''Weight management through diet and exercise''
   @ rec_if (field_in data ''smoking_status'' [''Current smoker'', ''Heavy smoker''])
       ''Quit smoking immediately - seek professional help if needed''"



definition cv_ok :: "(string \<Rightarrow> string) \<Rightarrow> pydict \<Rightarrow> bool" where
  "cv_ok ulower data \<longleftrightarrow>
     isOK (num_gt data ''age'' 45)
   \<and> isOK (gender_is_male ulower data)
   \<and> isOK (py_or (num_gt data ''blood_pressure_systolic'' 140)
                  (num_gt data ''blood_pressure_diastolic'' 90))
   \<and> isOK (num_gt data ''cholesterol_total'' 240)
   \<and> isOK (num_lt data ''cholesterol_hdl'' 40)
   \<and> isOK (num_gt data ''bmi'' 30)
   \<and> isOK (field_in data ''smoking_status'' [''Current smoker'', ''Heavy smoker''])
   \<and> isOK (family_history_has ulower data ''heart disease'')"

definition glucose_points :: "pydict \<Rightarrow> int" where
  "glucose_points data =
     (if num_gt data ''blood_sugar_fasting'' 126 = Inr True then 40
      else pts (num_gt data ''blood_sugar_fasting'' 100) 25)"

definition glucose_recs :: "pydict \<Rightarrow> string list" where
  "glucose_recs data =
     (if num_gt data ''blood_sugar_fasting'' 126 = Inr True
      then [''Immediate consultation with endocrinologist required'']
      else rec_if (num_gt data ''blood_sugar_fasting'' 100)
             ''Monitor blood sugar levels and follow diabetic-friendly diet'')"

definition glucose_ok :: "pydict \<Rightarrow> bool" where
  "glucose_ok data \<longleftrightarrow>
     isOK (num_gt data ''blood_sugar_fasting'' 126)
   \<and> (num_gt data ''blood_sugar_fasting'' 126 = Inr False \<longrightarrow>
        isOK (num_gt data ''blood_sugar_fasting'' 100))"

definition diabetes_points :: "(string \<Rightarrow> string) \<Rightarrow> pydict \<Rightarrow> int" where
  "diabetes_points ulower data =
     pts (num_gt data ''age'' 45) 15
   + pts (num_gt data ''bmi'' 25) 20
   + glucose_points data
   + pts (hba1c_gt data (13 / 2)) 35
   + pts (family_history_has ulower data ''diabetes'') 25
   + pts (field_in data ''exercise_frequency'' [''Never'', ''Rarely'']) 15"

definition diabetes_recs :: "pydict \<Rightarrow> string list" where
  "diabetes_recs data =
     glucose_recs data
   @ rec_if (field_in data ''exercise_frequency'' [''Never'', ''Rarely''])
       ''Increase physical activity to at least 150 minutes per week''"

definition diabetes_ok :: "(string \<Rightarrow> string) \<Rightarrow> pydict \<Rightarrow> bool" where
  "diabetes_ok ulower data \<longleftrightarrow>
     isOK (num_gt data ''age'' 45)
   \<and> isOK (num_gt data ''bmi'' 25)
   \<and> glucose_ok data
   \<and> isOK (hba1c_gt data (13 / 2))
   \<and> isOK (family_history_has ulower data ''diabetes'')
   \<and> isOK (field_in data ''exercise_frequency'' [''Never'', ''Rarely''])"

definition hypertension_points :: "(string \<Rightarrow> string) \<Rightarrow> pydict \<Rightarrow> int" where
  "hypertension_points ulower data =
     pts (py_or (num_gt data ''blood_pressure_systolic'' 120)
                (num_gt data ''blood_pressure_diastolic'' 80)) 30
   + pts (num_gt data ''age'' 50) 20
   + pts (num_gt data ''bmi'' 25) 15
   + pts (field_in data ''alcohol_consumption'' [''Heavy drinker'', ''Daily'']) 20
   + pts (family_history_has ulower data ''hypertension'') 25"

definition hypertension_recs :: "pydict \<Rightarrow> string list" where
  "hypertension_recs data =
     rec_if (field_in data ''alcohol_consumption'' [''Heavy drinker'', ''Daily''])
       ''Reduce alcohol consumption''"

definition hypertension_ok :: "(string \<Rightarrow> string) \<Rightarrow> pydict \<Rightarrow> bool" where
  "hypertension_ok ulower data \<longleftrightarrow>
     isOK (py_or (num_gt data ''blood_pressure_systolic'' 120)
                 (num_gt data ''blood_pressure_diastolic'' 80))
   \<and> isOK (num_gt data ''age'' 50)
   \<and> isOK (num_gt data ''bmi'' 25)
   \<and> isOK (field_in data ''alcohol_consumption'' [''Heavy drinker'', ''Daily''])
   \<and> isOK (family_history_has ulower data ''hypertension'')"

definition metabolic_points :: "pydict \<Rightarrow> int" where
  "metabolic_points data =
     pts (num_gt data ''bmi'' 30) 25
   + pts (num_gt data ''blood_sugar_fasting'' 100) 20
   + pts (num_lt data ''cholesterol_hdl'' 50) 15
   + pts (num_gt data ''blood_pressure_systolic'' 130) 20"

definition metabolic_ok :: "pydict \<Rightarrow> bool" where
  "metabolic_ok data \<longleftrightarrow>
     isOK (num_gt data ''bmi'' 30)
   \<and> isOK (num_gt data ''blood_sugar_fasting'' 100)
   \<and> isOK (num_lt data ''cholesterol_hdl'' 50)
   \<and> isOK (num_gt data ''blood_pressure_systolic'' 130)"

definition stroke_points :: "(string \<Rightarrow> string) \<Rightarrow> pydict \<Rightarrow> int" where
  "stroke_points ulower data =
     pts (num_gt data ''age'' 55) 20
   + pts (num_gt data ''blood_pressure_systolic'' 140) 25
   + pts (field_in data ''smoking_status'' [''Current smoker'', ''Heavy smoker'']) 25
   + pts (family_history_has ulower data ''stroke'') 30"

definition stroke_ok :: "(string \<Rightarrow> string) \<Rightarrow> pydict \<Rightarrow> bool" where
  "stroke_ok ulower data \<longleftrightarrow>
     isOK (num_gt data ''age'' 55)
   \<and> isOK (num_gt data ''blood_pressure_systolic'' 140)
   \<and> isOK (field_in data ''smoking_status'' [''Current smoker'', ''Heavy smoker''])
   \<and> isOK (family_history_has ulower data ''stroke'')"

definition accepted :: "(string \<Rightarrow> string) \<Rightarrow> pydict \<Rightarrow> bool" where
  "accepted ulower data \<longleftrightarrow>
     cv_ok ulower data \<and> diabetes_ok ulower data \<and> hypertension_ok ulower data \<and> metabolic_ok data
       \<and> stroke_ok ulower data"

definition triggered :: "pydict \<Rightarrow> string list" where
  "triggered data = cv_recs data @ diabetes_recs data @ hypertension_recs data"

definition closing :: "string list" where
  "closing =
     [''Regular health check-ups every 6-12 months'',
      ''Follow a balanced diet rich in fruits and vegetables'']"

definition expected_recs :: "pydict \<Rightarrow> string list" where
  "expected_recs data =
     triggered data
   @ (if triggered data = [] then [''Maintain current healthy lifestyle''] else [])
   @ closing"

definition expected_risks :: "(string \<Rightarrow> string) \<Rightarrow> pydict \<Rightarrow> (string \<times> int) list" where
  "expected_risks ulower data =
     [(''Cardiovascular Disease'', min (cv_points ulower data) 100),
      (''Type 2 Diabetes'', min (diabetes_points ulower data) 100),
      (''Hypertension'', min (hypertension_points ulower data) 100),
      (''Metabolic Syndrome'', min (metabolic_points data) 100),
      (''Stroke'', min (stroke_points ulower data) 100)]"

definition final_locals :: "(string \<Rightarrow> string) \<Rightarrow> pydict \<Rightarrow> locals" where
  "final_locals ulower data =
     \<lparr>risks = expected_risks ulower data, recommendations = expected_recs data,
      cv_risk = cv_points ulower data, diabetes_risk = diabetes_points ulower data,
      hypertension_risk = hypertension_points ulower data,
      metabolic_risk = metabolic_points data, stroke_risk = stroke_points ulower data\<rparr>"

text \<open>The number a value denotes, and the readings of a field as a number or as a str.\<close>

definition num_val :: "pyval \<Rightarrow> rat option" where
  "num_val v =
     (case v of PInt i \<Rightarrow> Some (of_int i) | PFloat (Finite q) \<Rightarrow> Some q | _ \<Rightarrow> None)"

definition field_num :: "pydict \<Rightarrow> string \<Rightarrow> rat option" where
  "field_num data k = (case data k of None \<Rightarrow> None | Some v \<Rightarrow> num_val v)"

definition field_str :: "pydict \<Rightarrow> string \<Rightarrow> string option" where
  "field_str data k = (case data k of Some (PStr s) \<Rightarrow> Some s | _ \<Rightarrow> None)"

section \<open>Sample inputs\<close>

text \<open>
  A record as the prediction form assembles it: the values of the worked example of the
  specification, and the form's defaults for the fields the example leaves out.
\<close>

definition intake_example :: pydict where
  "intake_example = map_of
    [(''patient_name'', PStr ''A. Patient''),
     (''age'', PInt 50),
     (''gender'', PStr ''Male''),
     (''bmi'', PFloat (Finite 22)),
     (''blood_pressure_systolic'', PInt 150),
     (''blood_pressure_diastolic'', PInt 70),
     (''cholesterol_total'', PInt 200),
     (''cholesterol_hdl'', PInt 45),
     (''cholesterol_ldl'', PInt 100),
     (''blood_sugar_fasting'', PInt 90),
     (''blood_sugar_random'', PInt 120),
     (''hba1c'', PFloat (Finite (11 / 2))),
     (''smoking_status'', PStr ''Never smoked''),
     (''alcohol_consumption'', PStr ''Never''),
     (''exercise_frequency'', PStr ''Daily''),
     (''family_history'', PStr [])]"

definition glucose_example :: pydict where
  "glucose_example = intake_example(''blood_sugar_fasting'' \<mapsto> PInt 130)"

text \<open>
  The sample records are ASCII throughout, so that \<open>lower\<close> never consults its
  parameter on them; the examples pass the identity for it.
\<close>

definition example_lower :: "string \<Rightarrow> string" where
  "example_lower s = s"

section \<open>The prediction store in closed form\<close>

text \<open>
  What a successful \<open>save_prediction\<close> writes, and when it succeeds. \<open>field_val\<close> is the
  value under a key (\<open>None\<close> when the key is missing); \<open>storable\<close> collects the
  conditions under which no step of \<open>save_prediction\<close> raises; \<open>stored_row\<close> is the row
  a submission leaves in the table under a given key, and \<open>written\<close> the rows that a
  list of submissions leaves, the counter being at \<open>seq\<close> before the first.
\<close>

definition field_val :: "pydict \<Rightarrow> string \<Rightarrow> pyval" where
  "field_val d k = (case d k of Some v \<Rightarrow> v | None \<Rightarrow> PNone)"

definition prediction_keys :: "string list" where
  "prediction_keys =
     [''patient_name'', ''age'', ''gender'', ''blood_pressure_systolic'',
      ''blood_pressure_diastolic'', ''cholesterol_total'', ''cholesterol_hdl'',
      ''cholesterol_ldl'', ''blood_sugar_fasting'', ''blood_sugar_random'', ''bmi'',
      ''smoking_status'', ''alcohol_consumption'', ''exercise_frequency'',
      ''family_history'']"

definition storable :: "nat \<Rightarrow> pydict \<Rightarrow> bool" where
  "storable user_id d \<longleftrightarrow>
     list_all (\<lambda>k. d k \<noteq> None) prediction_keys
     \<and> int user_id < 2 ^ 63
     \<and> list_all (\<lambda>k. fits_int64 (field_val d k)) prediction_keys
     \<and> fits_int64 (get_default d ''hba1c'' (PInt 0))
     \<and> list_all (\<lambda>k. sql_value (field_val d k) \<noteq> PNone) [''patient_name'', ''age'', ''gender'']"

definition stored_row :: "nat \<Rightarrow> submission \<Rightarrow> prediction_row" where
  "stored_row i c =
     (let col = (\<lambda>k. sql_value (field_val (sub_patient c) k)) in
      \<lparr>p_id = i, p_user_id = sub_user c, p_patient_name = col ''patient_name'',
        p_age = col ''age'', p_gender = col ''gender'',
        p_blood_pressure_systolic = col ''blood_pressure_systolic'',
        p_blood_pressure_diastolic = col ''blood_pressure_diastolic'',
        p_cholesterol_total = col ''cholesterol_total'',
        p_cholesterol_hdl = col ''cholesterol_hdl'',
        p_cholesterol_ldl = col ''cholesterol_ldl'',
        p_blood_sugar_fasting = col ''blood_sugar_fasting'',
        p_blood_sugar_random = col ''blood_sugar_random'',
        p_hba1c = sql_value (get_default (sub_patient c) ''hba1c'' (PInt 0)),
        p_bmi = col ''bmi'', p_smoking_status = col ''smoking_status'',
        p_alcohol_consumption = col ''alcohol_consumption'',
        p_exercise_frequency = col ''exercise_frequency'',
        p_family_history = col ''family_history'',
        p_predicted_diseases =
          join '', ''
            (map (\<lambda>(disease, score). disease @ '': '' @ str_int score @ ''%'') (sub_risks c)),
        p_risk_scores = str_dict (sub_risks c),
        p_recommendations = join ''; '' (sub_recommendations c),
        p_created_at = sub_time c\<rparr>)"

fun written :: "nat \<Rightarrow> submission list \<Rightarrow> prediction_row list" where
  "written seq [] = []"
| "written seq (c # cs) = stored_row (seq + 1) c # written (seq + 1) cs"

text \<open>Newest first: no row is followed by one with a later \<open>created_at\<close>.\<close>

definition newest_first :: "prediction_row list \<Rightarrow> bool" where
  "newest_first rows = sorted_wrt (\<lambda>a b. p_created_at b \<le> p_created_at a) rows"

section \<open>Sample stores\<close>

text \<open>
  Three submissions of the sample record, by the accounts 1, 2 and 1 at the clock
  readings 10, 20 and 30, into an empty table.
\<close>

definition submission_example :: "timestamp \<Rightarrow> nat \<Rightarrow> submission" where
  "submission_example t u =
     \<lparr>sub_time = t, sub_user = u, sub_patient = intake_example,
       sub_risks = [(''Cardiovascular Disease'', 55), (''Type 2 Diabetes'', 15),
                    (''Hypertension'', 30), (''Metabolic Syndrome'', 35), (''Stroke'', 25)],
       sub_recommendations =
         [''Monitor blood pressure regularly and consider medication if advised by doctor'',
          ''Regular health check-ups every 6-12 months'',
          ''Follow a balanced diet rich in fruits and vegetables'']\<rparr>"

definition history_example :: "submission list" where
  "history_example =
     [submission_example 10 1, submission_example 20 2, submission_example 30 1]"

definition empty_predictions :: predictions_db where
  "empty_predictions = \<lparr>prediction_rows = [], prediction_seq = 0\<rparr>"

text \<open>
  The table \<open>users\<close> after the first demo login, which registers the account \<open>demo\<close>.
  The examples use a stand-in for SHA-256 that is injective, so that two passwords have
  the same digest only when they are equal.
\<close>

definition example_digest :: "string \<Rightarrow> string" where
  "example_digest password = ''sha256:'' @ password"

definition demo_users :: users_db where
  "demo_users =
     \<lparr>user_rows =
        [\<lparr>u_id = 1, u_username = ''demo'', u_email = ''demo@example.com'',
          u_password_hash = example_digest ''demo123'', u_full_name = ''Demo User'',
          u_date_of_birth = ''1990-01-01'', u_gender = ''Other'', u_created_at = 0,
          u_last_login = None\<rparr>],
      user_seq = 1\<rparr>"

definition history_table :: predictions_db where
  "history_table = \<lparr>prediction_rows = written 0 history_example, prediction_seq = 3\<rparr>"

section \<open>The function computes the closed form\<close>

text \<open>
  Each block is run statement by statement. It returns exactly when every test it
  reaches has a value, and then it has added the points of the table to its counter,
  appended the recommendations and stored the clamped score.
\<close>

lemma exec_Cons_Inr: "exec (f # fs) s = Inr t \<longleftrightarrow> (\<exists>u. f s = Inr u \<and> exec fs u = Inr t)"
  by (simp split: sum.splits)

lemma exec_append_Inr:
  "exec (xs @ ys) s = Inr t \<longleftrightarrow> (\<exists>u. exec xs s = Inr u \<and> exec ys u = Inr t)"
  by (induction xs arbitrary: s) (auto split: sum.splits)

lemma assign_Inr: "assign f s = Inr t \<longleftrightarrow> t = f s"
  by (auto simp: assign_def)

lemma if_cv:
  "if_stmt c (\<lambda>s. s\<lparr>cv_risk := cv_risk s + k\<rparr>) s = Inr t \<longleftrightarrow>
     isOK c \<and> t = s\<lparr>cv_risk := cv_risk s + pts c k\<rparr>"
  by (cases c) (auto simp: if_stmt_def isOK_def pts_def)

lemma if_cv_rec:
  "if_stmt c (\<lambda>s. append_rec r (s\<lparr>cv_risk := cv_risk s + k\<rparr>)) s = Inr t \<longleftrightarrow>
     isOK c \<and> t = s\<lparr>cv_risk := cv_risk s + pts c k,
                     recommendations := recommendations s @ rec_if c r\<rparr>"
  by (cases c) (auto simp: if_stmt_def isOK_def pts_def rec_if_def append_rec_def)

lemma if_diabetes:
  "if_stmt c (\<lambda>s. s\<lparr>diabetes_risk := diabetes_risk s + k\<rparr>) s = Inr t \<longleftrightarrow>
     isOK c \<and> t = s\<lparr>diabetes_risk := diabetes_risk s + pts c k\<rparr>"
  by (cases c) (auto simp: if_stmt_def isOK_def pts_def)

lemma if_diabetes_rec:
  "if_stmt c (\<lambda>s. append_rec r (s\<lparr>diabetes_risk := diabetes_risk s + k\<rparr>)) s = Inr t \<longleftrightarrow>
     isOK c \<and> t = s\<lparr>diabetes_risk := diabetes_risk s + pts c k,
                     recommendations := recommendations s @ rec_if c r\<rparr>"
  by (cases c) (auto simp: if_stmt_def isOK_def pts_def rec_if_def append_rec_def)

lemma if_hypertension:
  "if_stmt c (\<lambda>s. s\<lparr>hypertension_risk := hypertension_risk s + k\<rparr>) s = Inr t \<longleftrightarrow>
     isOK c \<and> t = s\<lparr>hypertension_risk := hypertension_risk s + pts c k\<rparr>"
  by (cases c) (auto simp: if_stmt_def isOK_def pts_def)

lemma if_hypertension_rec:
  "if_stmt c (\<lambda>s. append_rec r (s\<lparr>hypertension_risk := hypertension_risk s + k\<rparr>)) s = Inr t
     \<longleftrightarrow> isOK c \<and> t = s\<lparr>hypertension_risk := hypertension_risk s + pts c k,
                     recommendations := recommendations s @ rec_if c r\<rparr>"
  by (cases c) (auto simp: if_stmt_def isOK_def pts_def rec_if_def append_rec_def)

lemma if_metabolic:
  "if_stmt c (\<lambda>s. s\<lparr>metabolic_risk := metabolic_risk s + k\<rparr>) s = Inr t \<longleftrightarrow>
     isOK c \<and> t = s\<lparr>metabolic_risk := metabolic_risk s + pts c k\<rparr>"
  by (cases c) (auto simp: if_stmt_def isOK_def pts_def)

lemma if_stroke:
  "if_stmt c (\<lambda>s. s\<lparr>stroke_risk := stroke_risk s + k\<rparr>) s = Inr t \<longleftrightarrow>
     isOK c \<and> t = s\<lparr>stroke_risk := stroke_risk s + pts c k\<rparr>"
  by (cases c) (auto simp: if_stmt_def isOK_def pts_def)

lemma glucose_stmt_Inr:
  "diabetes_glucose_stmt data s = Inr t \<longleftrightarrow>
     glucose_ok data \<and>
     t = s\<lparr>diabetes_risk := diabetes_risk s + glucose_points data,
           recommendations := recommendations s @ glucose_recs data\<rparr>"
proof (cases "num_gt data ''blood_sugar_fasting'' 126")
  case (Inl e)
  then show ?thesis
    by (simp add: diabetes_glucose_stmt_def if_elif_stmt_def glucose_ok_def isOK_def)
next
  case c1: (Inr b1)
  show ?thesis
  proof (cases b1)
    case True
    with c1 show ?thesis
      by (auto simp: diabetes_glucose_stmt_def if_elif_stmt_def glucose_ok_def isOK_def
            glucose_points_def glucose_recs_def append_rec_def)
  next
    case False
    with c1 show ?thesis
      by (cases "num_gt data ''blood_sugar_fasting'' 100")
         (auto simp: diabetes_glucose_stmt_def if_elif_stmt_def glucose_ok_def isOK_def
            glucose_points_def glucose_recs_def append_rec_def pts_def rec_if_def)
  qed
qed

lemma cv_block_Inr:
  "exec (cardiovascular_block ulower data) s = Inr t \<longleftrightarrow>
     cv_ok ulower data \<and>
     t = s\<lparr>cv_risk := cv_points ulower data,
           recommendations := recommendations s @ cv_recs data,
           risks := AList.update ''Cardiovascular Disease'' (min (cv_points ulower data) 100)
                      (risks s)\<rparr>"
  unfolding cardiovascular_block_def cv_points_def cv_recs_def cv_ok_def
  by (auto simp: exec_Cons_Inr if_cv if_cv_rec assign_Inr set_risk_def
        simp del: exec.simps(2))

lemma diabetes_block_Inr:
  "exec (diabetes_block ulower data) s = Inr t \<longleftrightarrow>
     diabetes_ok ulower data \<and>
     t = s\<lparr>diabetes_risk := diabetes_points ulower data,
           recommendations := recommendations s @ diabetes_recs data,
           risks := AList.update ''Type 2 Diabetes'' (min (diabetes_points ulower data) 100)
                      (risks s)\<rparr>"
  unfolding diabetes_block_def diabetes_points_def diabetes_recs_def diabetes_ok_def
  by (auto simp: exec_Cons_Inr if_diabetes if_diabetes_rec glucose_stmt_Inr assign_Inr
        set_risk_def simp del: exec.simps(2))

lemma hypertension_block_Inr:
  "exec (hypertension_block ulower data) s = Inr t \<longleftrightarrow>
     hypertension_ok ulower data \<and>
     t = s\<lparr>hypertension_risk := hypertension_points ulower data,
           recommendations := recommendations s @ hypertension_recs data,
           risks := AList.update ''Hypertension'' (min (hypertension_points ulower data) 100)
                      (risks s)\<rparr>"
  unfolding hypertension_block_def hypertension_points_def hypertension_recs_def
    hypertension_ok_def
  by (auto simp: exec_Cons_Inr if_hypertension if_hypertension_rec assign_Inr set_risk_def
        simp del: exec.simps(2))

lemma metabolic_block_Inr:
  "exec (metabolic_block data) s = Inr t \<longleftrightarrow>
     metabolic_ok data \<and>
     t = s\<lparr>metabolic_risk := metabolic_points data,
           risks := AList.update ''Metabolic Syndrome'' (min (metabolic_points data) 100)
                      (risks s)\<rparr>"
  unfolding metabolic_block_def metabolic_points_def metabolic_ok_def
  by (auto simp: exec_Cons_Inr if_metabolic assign_Inr set_risk_def
        simp del: exec.simps(2))

lemma stroke_block_Inr:
  "exec (stroke_block ulower data) s = Inr t \<longleftrightarrow>
     stroke_ok ulower data \<and>
     t = s\<lparr>stroke_risk := stroke_points ulower data,
           risks := AList.update ''Stroke'' (min (stroke_points ulower data) 100) (risks s)\<rparr>"
  unfolding stroke_block_def stroke_points_def stroke_ok_def
  by (auto simp: exec_Cons_Inr if_stroke assign_Inr set_risk_def
        simp del: exec.simps(2))

lemma general_block_Inr:
  "exec general_block s = Inr t \<longleftrightarrow>
     t = s\<lparr>recommendations :=
             recommendations s
             @ (if recommendations s = [] then [''Maintain current healthy lifestyle''] else [])
             @ closing\<rparr>"
  unfolding general_block_def closing_def
  by (auto simp: exec_Cons_Inr assign_Inr if_stmt_def append_rec_def
        simp del: exec.simps(2))

lemma prologue_Inr:
  "exec prologue s = Inr t \<longleftrightarrow> t = s\<lparr>risks := [], recommendations := []\<rparr>"
  unfolding prologue_def
  by (auto simp: exec_Cons_Inr assign_Inr simp del: exec.simps(2))

lemma run_iff: "run ulower data = Inr t \<longleftrightarrow> accepted ulower data \<and> t = final_locals ulower data"
  unfolding run_def body_def
  by (auto simp: exec_append_Inr prologue_Inr cv_block_Inr diabetes_block_Inr
        hypertension_block_Inr metabolic_block_Inr stroke_block_Inr general_block_Inr
        accepted_def final_locals_def
        expected_risks_def expected_recs_def triggered_def unbound_def)

lemma calculate_iff:
  "calculate_disease_risk ulower data = Inr (rs, recs) \<longleftrightarrow>
     accepted ulower data \<and> rs = expected_risks ulower data \<and> recs = expected_recs data"
proof
  assume "calculate_disease_risk ulower data = Inr (rs, recs)"
  then obtain s where s: "run ulower data = Inr s" "rs = risks s" "recs = recommendations s"
    by (auto simp: calculate_disease_risk_def split: sum.splits)
  from s(1) have "accepted ulower data" "s = final_locals ulower data"
    by (simp_all add: run_iff)
  with s show "accepted ulower data \<and> rs = expected_risks ulower data \<and> recs = expected_recs data"
    by (simp add: final_locals_def)
next
  assume r: "accepted ulower data \<and> rs = expected_risks ulower data \<and> recs = expected_recs data"
  then have "run ulower data = Inr (final_locals ulower data)"
    by (simp add: run_iff)
  with r show "calculate_disease_risk ulower data = Inr (rs, recs)"
    by (simp add: calculate_disease_risk_def final_locals_def)
qed

lemma pts_nonneg: "0 \<le> k \<Longrightarrow> 0 \<le> pts c k"
  by (simp add: pts_def)

lemma glucose_points_nonneg: "0 \<le> glucose_points data"
  by (simp add: glucose_points_def pts_def)

lemma points_nonneg:
  "0 \<le> cv_points ulower data" "0 \<le> diabetes_points ulower data" "0 \<le> hypertension_points ulower data"
  "0 \<le> metabolic_points data" "0 \<le> stroke_points ulower data"
  by (simp_all add: cv_points_def diabetes_points_def hypertension_points_def
        metabolic_points_def stroke_points_def pts_nonneg glucose_points_nonneg)

subsection \<open>The tests on a record whose fields are known\<close>

lemma num_gt_field: "field_num data k = Some q \<Longrightarrow> num_gt data k c = Inr (c < q)"
  by (auto simp: field_num_def num_val_def num_gt_def getitem_def sbind_def
        split: option.splits pyval.splits pyfloat.splits)

lemma num_lt_field: "field_num data k = Some q \<Longrightarrow> num_lt data k c = Inr (q < c)"
  by (auto simp: field_num_def num_val_def num_lt_def getitem_def sbind_def
        split: option.splits pyval.splits pyfloat.splits)

lemma gender_field:
  "field_str data ''gender'' = Some g \<Longrightarrow> gender_is_male ulower data = Inr (lower ulower g = ''male'')"
  by (auto simp: field_str_def gender_is_male_def getitem_def sbind_def py_lower_def
        split: option.splits pyval.splits)

lemma field_in_str:
  "field_str data k = Some x \<Longrightarrow> field_in data k xs = Inr (x \<in> set xs)"
  by (auto simp: field_str_def field_in_def getitem_def sbind_def py_in_list_def
        split: option.splits pyval.splits)

lemma family_field:
  "field_str data ''family_history'' = Some t \<Longrightarrow>
     family_history_has ulower data sub = Inr (py_in_str sub (lower ulower t))"
  by (auto simp: field_str_def family_history_has_def get_default_def sbind_def py_lower_def
        split: option.splits pyval.splits)

lemma hba1c_field:
  "field_num data ''hba1c'' = Some q \<Longrightarrow> hba1c_gt data c = Inr (c < q)"
  by (auto simp: field_num_def num_val_def hba1c_gt_def get_default_def
        split: option.splits pyval.splits pyfloat.splits)

lemma py_or_Inr: "py_or (Inr a) (Inr b) = Inr (a \<or> b)"
  by (simp add: py_or_def sbind_def)

lemma isOK_Inr: "isOK (Inr v)"
  by (simp add: isOK_def)

lemma pts_Inr: "pts (Inr b) k = (if b then k else 0)"
  by (simp add: pts_def)

lemma rec_if_Inr: "rec_if (Inr b) r = (if b then [r] else [])"
  by (simp add: rec_if_def)

lemma lower_Male: "lower ulower ''Male'' = ''male''"
  by (simp add: lower_def is_ascii_def ascii_lower_def lower_char_def)

lemma lower_Nil: "lower ulower [] = []"
  by (simp add: lower_def is_ascii_def ascii_lower_def)

lemma intake_example_fields:
  "field_num intake_example ''age'' = Some 50"
  "field_str intake_example ''gender'' = Some ''Male''"
  "field_num intake_example ''bmi'' = Some 22"
  "field_num intake_example ''blood_pressure_systolic'' = Some 150"
  "field_num intake_example ''blood_pressure_diastolic'' = Some 70"
  "field_num intake_example ''cholesterol_total'' = Some 200"
  "field_num intake_example ''cholesterol_hdl'' = Some 45"
  "field_num intake_example ''blood_sugar_fasting'' = Some 90"
  "field_num intake_example ''hba1c'' = Some (11 / 2)"
  "field_str intake_example ''smoking_status'' = Some ''Never smoked''"
  "field_str intake_example ''alcohol_consumption'' = Some ''Never''"
  "field_str intake_example ''exercise_frequency'' = Some ''Daily''"
  "field_str intake_example ''family_history'' = Some []"
  by (simp_all add: intake_example_def field_num_def field_str_def num_val_def)

text \<open>
  With every field readable, every test of the function has a value: the record is
  accepted.
\<close>

lemma accepted_fields:
  assumes "field_num data ''age'' = Some age"
    and "field_str data ''gender'' = Some g"
    and "field_num data ''bmi'' = Some bmi"
    and "field_num data ''blood_pressure_systolic'' = Some sys"
    and "field_num data ''blood_pressure_diastolic'' = Some dia"
    and "field_num data ''cholesterol_total'' = Some chol"
    and "field_num data ''cholesterol_hdl'' = Some hdl"
    and "field_num data ''blood_sugar_fasting'' = Some fasting"
    and "field_num data ''hba1c'' = Some hb"
    and "field_str data ''smoking_status'' = Some smoking"
    and "field_str data ''alcohol_consumption'' = Some alcohol"
    and "field_str data ''exercise_frequency'' = Some exercise"
    and "field_str data ''family_history'' = Some fh"
  shows "accepted ulower data"
  unfolding accepted_def cv_ok_def diabetes_ok_def hypertension_ok_def metabolic_ok_def
    stroke_ok_def glucose_ok_def
  by (simp add: assms num_gt_field num_lt_field gender_field field_in_str family_field
        hba1c_field py_or_Inr isOK_Inr del: set_simps)

lemma intake_example_accepted: "accepted ulower intake_example"
  by (rule accepted_fields [OF intake_example_fields])

lemma intake_example_risks:
  "expected_risks ulower intake_example =
     [(''Cardiovascular Disease'', 55), (''Type 2 Diabetes'', 15), (''Hypertension'', 30),
      (''Metabolic Syndrome'', 35), (''Stroke'', 25)]"
  unfolding expected_risks_def cv_points_def diabetes_points_def hypertension_points_def
    metabolic_points_def stroke_points_def glucose_points_def
  by (simp add: intake_example_fields num_gt_field num_lt_field gender_field field_in_str
        family_field hba1c_field [OF intake_example_fields(9)] py_or_Inr pts_Inr lower_Male lower_Nil)

lemma intake_example_recs:
  "expected_recs intake_example =
     [''Monitor blood pressure regularly and consider medication if advised by doctor'',
      ''Regular health check-ups every 6-12 months'',
      ''Follow a balanced diet rich in fruits and vegetables'']"
  unfolding expected_recs_def triggered_def cv_recs_def diabetes_recs_def
    hypertension_recs_def glucose_recs_def closing_def
  by (simp add: intake_example_fields num_gt_field num_lt_field gender_field field_in_str
        family_field hba1c_field [OF intake_example_fields(9)] py_or_Inr rec_if_Inr)

lemma intake_example_result:
  "calculate_disease_risk ulower intake_example =
     Inr ([(''Cardiovascular Disease'', 55), (''Type 2 Diabetes'', 15), (''Hypertension'', 30),
           (''Metabolic Syndrome'', 35), (''Stroke'', 25)],
          [''Monitor blood pressure regularly and consider medication if advised by doctor'',
           ''Regular health check-ups every 6-12 months'',
           ''Follow a balanced diet rich in fruits and vegetables''])"
  by (simp add: calculate_iff intake_example_accepted intake_example_risks
        intake_example_recs)

section \<open>Risk scores\<close>

lemma run_final: "run ulower data = Inr s \<Longrightarrow> s = final_locals ulower data"
  by (simp add: run_iff)

lemma calculate_run:
  "calculate_disease_risk ulower data = Inr (rs, recs) \<Longrightarrow>
     run ulower data = Inr (final_locals ulower data)
     \<and> rs = expected_risks ulower data \<and> recs = expected_recs data"
  by (simp add: calculate_iff run_iff)

text \<open>
  C1. Whenever \<open>calculate_disease_risk\<close> returns, it returns a score for each of the five
  diseases, in the order they are evaluated, and every score is an integer between 0 and
  100: the counter of each disease is not negative when the function ends, and the score
  stored is the counter cut off at 100.
\<close>

theorem risk_scores_in_range:
  assumes "calculate_disease_risk ulower data = Inr (rs, recs)"
  shows "map fst rs =
           [''Cardiovascular Disease'', ''Type 2 Diabetes'', ''Hypertension'',
            ''Metabolic Syndrome'', ''Stroke'']
       \<and> (\<forall>v \<in> set (map snd rs). 0 \<le> v \<and> v \<le> 100)
       \<and> (\<exists>s. run ulower data = Inr s
             \<and> 0 \<le> cv_risk s \<and> 0 \<le> diabetes_risk s \<and> 0 \<le> hypertension_risk s
             \<and> 0 \<le> metabolic_risk s \<and> 0 \<le> stroke_risk s
             \<and> map snd rs =
                 [min (cv_risk s) 100, min (diabetes_risk s) 100,
                  min (hypertension_risk s) 100, min (metabolic_risk s) 100,
                  min (stroke_risk s) 100])"
proof -
  from calculate_run [OF assms]
  have r: "run ulower data = Inr (final_locals ulower data)" and rs: "rs = expected_risks ulower data"
    by simp_all
  have names: "map fst rs =
      [''Cardiovascular Disease'', ''Type 2 Diabetes'', ''Hypertension'',
       ''Metabolic Syndrome'', ''Stroke'']"
    by (simp add: rs expected_risks_def)
  have range: "\<forall>v \<in> set (map snd rs). 0 \<le> v \<and> v \<le> 100"
    by (simp add: rs expected_risks_def points_nonneg)
  have counters: "0 \<le> cv_risk (final_locals ulower data) \<and> 0 \<le> diabetes_risk (final_locals ulower data)
      \<and> 0 \<le> hypertension_risk (final_locals ulower data) \<and> 0 \<le> metabolic_risk (final_locals ulower data)
      \<and> 0 \<le> stroke_risk (final_locals ulower data)"
    by (simp add: final_locals_def points_nonneg)
  have clamp: "map snd rs =
      [min (cv_risk (final_locals ulower data)) 100, min (diabetes_risk (final_locals ulower data)) 100,
       min (hypertension_risk (final_locals ulower data)) 100,
       min (metabolic_risk (final_locals ulower data)) 100,
       min (stroke_risk (final_locals ulower data)) 100]"
    by (simp add: rs expected_risks_def final_locals_def)
  from r counters clamp have ex: "\<exists>s. run ulower data = Inr s
             \<and> 0 \<le> cv_risk s \<and> 0 \<le> diabetes_risk s \<and> 0 \<le> hypertension_risk s
             \<and> 0 \<le> metabolic_risk s \<and> 0 \<le> stroke_risk s
             \<and> map snd rs =
                 [min (cv_risk s) 100, min (diabetes_risk s) 100,
                  min (hypertension_risk s) 100, min (metabolic_risk s) 100,
                  min (stroke_risk s) 100]"
    by (intro exI [where x = "final_locals ulower data"] conjI) (elim conjE, assumption)+
  from names range ex show ?thesis
    by (intro conjI)
qed

theorem risk_scores_in_range_witness:
  "calculate_disease_risk example_lower intake_example =
     Inr ([(''Cardiovascular Disease'', 55), (''Type 2 Diabetes'', 15), (''Hypertension'', 30),
           (''Metabolic Syndrome'', 35), (''Stroke'', 25)],
          [''Monitor blood pressure regularly and consider medication if advised by doctor'',
           ''Regular health check-ups every 6-12 months'',
           ''Follow a balanced diet rich in fruits and vegetables''])
   \<and> (0::int) \<le> 55 \<and> (55::int) \<le> 100"
proof -
  note t = risk_scores_in_range [OF intake_example_result]
  have m: "(55::int) \<in> set (map snd
      [(''Cardiovascular Disease'', 55::int), (''Type 2 Diabetes'', 15),
       (''Hypertension'', 30), (''Metabolic Syndrome'', 35), (''Stroke'', 25)])"
    by simp
  from intake_example_result bspec [OF t [THEN conjunct2, THEN conjunct1] m]
  show ?thesis
    by (rule conjI)
qed

section \<open>The recommendation list\<close>

text \<open>
  C3. Whenever \<open>calculate_disease_risk\<close> returns, the recommendation list is: the
  recommendations triggered in the cardiovascular block, then those of the diabetes block,
  then those of the hypertension block (the metabolic and the stroke block trigger none),
  each block in the order of its tests; then the single line on a healthy lifestyle if
  nothing was triggered; and always, last, the line on check-ups followed by the line on
  diet.
\<close>

theorem recommendation_list_assembly:
  assumes "calculate_disease_risk ulower data = Inr (rs, recs)"
  shows "recs =
           (cv_recs data @ diabetes_recs data @ hypertension_recs data)
         @ (if cv_recs data @ diabetes_recs data @ hypertension_recs data = []
            then [''Maintain current healthy lifestyle''] else [])
         @ [''Regular health check-ups every 6-12 months'',
            ''Follow a balanced diet rich in fruits and vegetables'']"
proof -
  from calculate_run [OF assms] have "recs = expected_recs data"
    by simp
  then show ?thesis
    by (simp add: expected_recs_def triggered_def closing_def)
qed

theorem recommendation_list_assembly_witness:
  "calculate_disease_risk example_lower intake_example =
     Inr ([(''Cardiovascular Disease'', 55), (''Type 2 Diabetes'', 15), (''Hypertension'', 30),
           (''Metabolic Syndrome'', 35), (''Stroke'', 25)],
          [''Monitor blood pressure regularly and consider medication if advised by doctor'',
           ''Regular health check-ups every 6-12 months'',
           ''Follow a balanced diet rich in fruits and vegetables''])
   \<and> [''Monitor blood pressure regularly and consider medication if advised by doctor'',
       ''Regular health check-ups every 6-12 months'',
       ''Follow a balanced diet rich in fruits and vegetables''] =
         (cv_recs intake_example @ diabetes_recs intake_example
            @ hypertension_recs intake_example)
       @ (if cv_recs intake_example @ diabetes_recs intake_example
               @ hypertension_recs intake_example = []
          then [''Maintain current healthy lifestyle''] else [])
       @ [''Regular health check-ups every 6-12 months'',
          ''Follow a balanced diet rich in fruits and vegetables'']"
  using intake_example_result recommendation_list_assembly [OF intake_example_result]
  by (rule conjI)

section \<open>The worked example\<close>

text \<open>
  C5. On a record with age 50, a gender that reads male, systolic pressure 150, diastolic
  pressure 70, total cholesterol 200, HDL 45, BMI 22, smoking status "Never smoked" and
  an empty family history, whatever its other fields hold, the score that
  \<open>calculate_disease_risk\<close> returns for Cardiovascular Disease is 55.
\<close>

theorem cardiovascular_score_example:
  assumes "calculate_disease_risk ulower data = Inr (rs, recs)"
    and "field_num data ''age'' = Some 50"
    and "field_str data ''gender'' = Some g" and "lower ulower g = ''male''"
    and "field_num data ''blood_pressure_systolic'' = Some 150"
    and "field_num data ''blood_pressure_diastolic'' = Some 70"
    and "field_num data ''cholesterol_total'' = Some 200"
    and "field_num data ''cholesterol_hdl'' = Some 45"
    and "field_num data ''bmi'' = Some 22"
    and "field_str data ''smoking_status'' = Some ''Never smoked''"
    and "field_str data ''family_history'' = Some []"
  shows "map_of rs ''Cardiovascular Disease'' = Some 55"
proof -
  have "cv_points ulower data = 20 + 10 + 25"
    unfolding cv_points_def
    by (simp add: assms(2-) num_gt_field num_lt_field gender_field field_in_str family_field
          py_or_Inr pts_Inr lower_Nil)
  moreover from calculate_run [OF assms(1)] have "rs = expected_risks ulower data"
    by simp
  ultimately show ?thesis
    by (simp add: expected_risks_def)
qed

theorem cardiovascular_score_example_witness:
  "calculate_disease_risk example_lower intake_example =
     Inr ([(''Cardiovascular Disease'', 55), (''Type 2 Diabetes'', 15), (''Hypertension'', 30),
           (''Metabolic Syndrome'', 35), (''Stroke'', 25)],
          [''Monitor blood pressure regularly and consider medication if advised by doctor'',
           ''Regular health check-ups every 6-12 months'',
           ''Follow a balanced diet rich in fruits and vegetables''])
   \<and> map_of [(''Cardiovascular Disease'', 55::int), (''Type 2 Diabetes'', 15),
              (''Hypertension'', 30), (''Metabolic Syndrome'', 35), (''Stroke'', 25)]
        ''Cardiovascular Disease'' = Some 55"
  using intake_example_result
    cardiovascular_score_example [OF intake_example_result intake_example_fields(1)
      intake_example_fields(2) lower_Male intake_example_fields(4) intake_example_fields(5)
      intake_example_fields(6) intake_example_fields(7) intake_example_fields(3)
      intake_example_fields(10) intake_example_fields(13)]
  by (rule conjI)

section \<open>Changing one field of a record\<close>

text \<open>A test reads only its own field: storing into another key leaves it as it was.\<close>

lemma num_gt_other: "k \<noteq> k' \<Longrightarrow> num_gt (data(k' := x)) k c = num_gt data k c"
  by (simp add: num_gt_def getitem_def)

lemma num_lt_other: "k \<noteq> k' \<Longrightarrow> num_lt (data(k' := x)) k c = num_lt data k c"
  by (simp add: num_lt_def getitem_def)

lemma field_in_other: "k \<noteq> k' \<Longrightarrow> field_in (data(k' := x)) k xs = field_in data k xs"
  by (simp add: field_in_def getitem_def)

lemma gender_other: "k' \<noteq> ''gender'' \<Longrightarrow> gender_is_male ulower (data(k' := x)) = gender_is_male ulower data"
  by (simp add: gender_is_male_def getitem_def)

lemma family_other:
  "k' \<noteq> ''family_history'' \<Longrightarrow>
     family_history_has ulower (data(k' := x)) sub = family_history_has ulower data sub"
  by (simp add: family_history_has_def get_default_def)

lemma hba1c_other: "k' \<noteq> ''hba1c'' \<Longrightarrow> hba1c_gt (data(k' := x)) c = hba1c_gt data c"
  by (simp add: hba1c_gt_def get_default_def)

lemmas other_field =
  num_gt_other num_lt_other field_in_other gender_other family_other hba1c_other

lemma num_gt_same: "num_gt (data(k \<mapsto> v)) k c = py_gt v c"
  by (simp add: num_gt_def getitem_def sbind_def)

lemma field_in_same: "field_in (data(k \<mapsto> v)) k xs = Inr (py_in_list v xs)"
  by (simp add: field_in_def getitem_def sbind_def)

lemma gender_same:
  "gender_is_male ulower (data(''gender'' \<mapsto> PStr g)) = Inr (lower ulower g = ''male'')"
  by (simp add: gender_is_male_def getitem_def sbind_def py_lower_def)



lemma hba1c_same: "hba1c_gt (data(''hba1c'' \<mapsto> v)) c = py_gt v c"
  by (simp add: hba1c_gt_def get_default_def)

lemma hba1c_absent: "hba1c_gt (data(''hba1c'' := None)) c = Inr (c < 0)"
  by (simp add: hba1c_gt_def get_default_def)

lemmas block_defs =
  body_def prologue_def cardiovascular_block_def diabetes_block_def diabetes_glucose_stmt_def
  hypertension_block_def metabolic_block_def stroke_block_def general_block_def

lemmas ok_defs =
  accepted_def cv_ok_def diabetes_ok_def glucose_ok_def hypertension_ok_def metabolic_ok_def
  stroke_ok_def

lemma calculate_body_cong:
  "body ulower d = body ulower d' \<Longrightarrow> calculate_disease_risk ulower d = calculate_disease_risk ulower d'"
  by (simp add: calculate_disease_risk_def run_def)



lemma mem_rec_if: "x \<in> set (rec_if c r) \<longleftrightarrow> c = Inr True \<and> x = r"
  by (auto simp: rec_if_def)

lemma py_le_iff_not_gt:
  "py_gt v a = Inr True \<Longrightarrow> (py_le v b = Inr True) = (py_gt v b \<noteq> Inr True)"
  by (cases "(v, b)" rule: py_gt.cases) auto

lemma field_num_upd:
  "field_num (d(k \<mapsto> v)) k' = (if k' = k then num_val v else field_num d k')"
  by (simp add: field_num_def)

lemma field_str_upd:
  "field_str (d(k \<mapsto> v)) k' =
     (if k' = k then (case v of PStr s \<Rightarrow> Some s | _ \<Rightarrow> None) else field_str d k')"
  by (simp add: field_str_def)

section \<open>The fasting glucose branches\<close>

lemma num_gt_val: "data k = Some v \<Longrightarrow> num_gt data k c = py_gt v c"
  by (simp add: num_gt_def getitem_def sbind_def)

lemma glucose_points_val:
  "data ''blood_sugar_fasting'' = Some v \<Longrightarrow>
     glucose_points data =
       (if py_gt v 126 = Inr True then 40 else if py_gt v 100 = Inr True then 25 else 0)"
  by (simp add: glucose_points_def num_gt_val pts_def)

lemma py_gt_mono: "py_gt v 126 = Inr True \<Longrightarrow> py_gt v 100 = Inr True"
  by (cases "(v, 126::rat)" rule: py_gt.cases) auto

lemma endocrinologist_iff:
  "''Immediate consultation with endocrinologist required'' \<in> set (expected_recs data)
     \<longleftrightarrow> num_gt data ''blood_sugar_fasting'' 126 = Inr True"
  by (simp add: expected_recs_def triggered_def cv_recs_def diabetes_recs_def
        hypertension_recs_def glucose_recs_def closing_def mem_rec_if)

lemma monitor_glucose_iff:
  "''Monitor blood sugar levels and follow diabetic-friendly diet'' \<in> set (expected_recs data)
     \<longleftrightarrow> num_gt data ''blood_sugar_fasting'' 126 \<noteq> Inr True
        \<and> num_gt data ''blood_sugar_fasting'' 100 = Inr True"
  by (simp add: expected_recs_def triggered_def cv_recs_def diabetes_recs_def
        hypertension_recs_def glucose_recs_def closing_def mem_rec_if)

text \<open>
  C2. On a record that \<open>calculate_disease_risk\<close> accepts, with fasting glucose \<open>v\<close>:
  the diabetes counter at the end is the sum of the points of the other five tests and of
  one glucose term, which is 40 when \<open>v > 126\<close>, 25 when \<open>v > 100\<close> and not
  \<open>v > 126\<close>, and 0 otherwise. The endocrinologist line is in the recommendations
  exactly when \<open>v > 126\<close>, the glucose-monitoring line exactly when \<open>v > 100\<close> and
  \<open>v <= 126\<close>. With \<open>v = 130\<close> the term is 40 and the monitoring line is absent.
\<close>

theorem glucose_branches_exclusive:
  assumes "run ulower data = Inr s" and "data ''blood_sugar_fasting'' = Some v"
  shows "diabetes_risk s =
           pts (num_gt data ''age'' 45) 15
         + pts (num_gt data ''bmi'' 25) 20
         + (if py_gt v 126 = Inr True then 40 else if py_gt v 100 = Inr True then 25 else 0)
         + pts (hba1c_gt data (13 / 2)) 35
         + pts (family_history_has ulower data ''diabetes'') 25
         + pts (field_in data ''exercise_frequency'' [''Never'', ''Rarely'']) 15
       \<and> ((''Immediate consultation with endocrinologist required''
              \<in> set (recommendations s)) = (py_gt v 126 = Inr True))
       \<and> ((''Monitor blood sugar levels and follow diabetic-friendly diet''
              \<in> set (recommendations s))
            = (py_gt v 100 = Inr True \<and> py_le v 126 = Inr True))
       \<and> (num_val v = Some 130 \<longrightarrow>
            (if py_gt v 126 = Inr True then 40 else if py_gt v 100 = Inr True then 25 else 0)
              = (40::int)
            \<and> ''Monitor blood sugar levels and follow diabetic-friendly diet''
                \<notin> set (recommendations s))"
proof -
  from assms(1) have s: "s = final_locals ulower data"
    by (rule run_final)
  have points: "diabetes_risk s =
           pts (num_gt data ''age'' 45) 15
         + pts (num_gt data ''bmi'' 25) 20
         + (if py_gt v 126 = Inr True then 40 else if py_gt v 100 = Inr True then 25 else 0)
         + pts (hba1c_gt data (13 / 2)) 35
         + pts (family_history_has ulower data ''diabetes'') 25
         + pts (field_in data ''exercise_frequency'' [''Never'', ''Rarely'']) 15"
    by (simp add: s final_locals_def diabetes_points_def glucose_points_val [where v = v] assms(2))
  have endo: "(''Immediate consultation with endocrinologist required''
              \<in> set (recommendations s)) = (py_gt v 126 = Inr True)"
    by (simp add: s final_locals_def endocrinologist_iff num_gt_val [where v = v] assms(2))
  have mon0: "(''Monitor blood sugar levels and follow diabetic-friendly diet''
              \<in> set (recommendations s))
            = (py_gt v 126 \<noteq> Inr True \<and> py_gt v 100 = Inr True)"
    by (simp add: s final_locals_def monitor_glucose_iff num_gt_val [where v = v] assms(2))
  have mon: "(''Monitor blood sugar levels and follow diabetic-friendly diet''
              \<in> set (recommendations s))
            = (py_gt v 100 = Inr True \<and> py_le v 126 = Inr True)"
    unfolding mon0 using py_le_iff_not_gt [of v 100 126] by auto
  have at130: "num_val v = Some 130 \<longrightarrow>
            (if py_gt v 126 = Inr True then 40 else if py_gt v 100 = Inr True then 25 else 0)
              = (40::int)
            \<and> ''Monitor blood sugar levels and follow diabetic-friendly diet''
                \<notin> set (recommendations s)"
  proof
    assume "num_val v = Some 130"
    then have "py_gt v 126 = Inr True"
      by (cases "(v, 126::rat)" rule: py_gt.cases) (auto simp: num_val_def)
    then show "(if py_gt v 126 = Inr True then 40
                else if py_gt v 100 = Inr True then 25 else 0) = (40::int)
            \<and> ''Monitor blood sugar levels and follow diabetic-friendly diet''
                \<notin> set (recommendations s)"
      by (simp add: mon0)
  qed
  from points endo mon at130 show ?thesis
    by (intro conjI)
qed

lemma glucose_example_fields:
  "field_num glucose_example ''age'' = Some 50"
  "field_str glucose_example ''gender'' = Some ''Male''"
  "field_num glucose_example ''bmi'' = Some 22"
  "field_num glucose_example ''blood_pressure_systolic'' = Some 150"
  "field_num glucose_example ''blood_pressure_diastolic'' = Some 70"
  "field_num glucose_example ''cholesterol_total'' = Some 200"
  "field_num glucose_example ''cholesterol_hdl'' = Some 45"
  "field_num glucose_example ''blood_sugar_fasting'' = Some 130"
  "field_num glucose_example ''hba1c'' = Some (11 / 2)"
  "field_str glucose_example ''smoking_status'' = Some ''Never smoked''"
  "field_str glucose_example ''alcohol_consumption'' = Some ''Never''"
  "field_str glucose_example ''exercise_frequency'' = Some ''Daily''"
  "field_str glucose_example ''family_history'' = Some []"
  by (simp_all add: glucose_example_def field_num_upd field_str_upd intake_example_fields
        num_val_def)

lemma glucose_example_run: "run ulower glucose_example = Inr (final_locals ulower glucose_example)"
  by (simp add: run_iff accepted_fields [OF glucose_example_fields])

lemma glucose_example_fasting: "glucose_example ''blood_sugar_fasting'' = Some (PInt 130)"
  by (simp add: glucose_example_def)

theorem glucose_branches_exclusive_witness:
  "run example_lower glucose_example = Inr (final_locals example_lower glucose_example)
   \<and> glucose_example ''blood_sugar_fasting'' = Some (PInt 130)
   \<and> diabetes_risk (final_locals example_lower glucose_example) = 15 + 40
   \<and> ''Immediate consultation with endocrinologist required''
        \<in> set (recommendations (final_locals example_lower glucose_example))
   \<and> ''Monitor blood sugar levels and follow diabetic-friendly diet''
        \<notin> set (recommendations (final_locals example_lower glucose_example))"
proof -
  note t = glucose_branches_exclusive [OF glucose_example_run glucose_example_fasting]
  from t have "diabetes_risk (final_locals example_lower glucose_example) = 15 + 40"
    by (simp add: glucose_example_fields num_gt_field field_in_str family_field
          hba1c_field [OF glucose_example_fields(9)] pts_Inr lower_Nil)
  moreover from t
  have "''Immediate consultation with endocrinologist required''
          \<in> set (recommendations (final_locals example_lower glucose_example))"
    by simp
  moreover from t
  have "''Monitor blood sugar levels and follow diabetic-friendly diet''
          \<notin> set (recommendations (final_locals example_lower glucose_example))"
    by (simp add: num_val_def)
  ultimately show ?thesis
    using glucose_example_run glucose_example_fasting by (intro conjI)
qed

section \<open>The optional HbA1c field\<close>

lemma body_hba1c_absent: "body ulower (data(''hba1c'' := None)) = body ulower (data(''hba1c'' \<mapsto> PInt 0))"
  by (simp add: block_defs other_field hba1c_same hba1c_absent)

lemma accepted_hba1c_absent:
  "accepted ulower (data(''hba1c'' \<mapsto> v)) \<Longrightarrow> accepted ulower (data(''hba1c'' := None))"
  by (simp add: ok_defs other_field hba1c_same hba1c_absent isOK_Inr)

lemma points_hba1c:
  "cv_points ulower (data(''hba1c'' := x)) = cv_points ulower data"
  "hypertension_points ulower (data(''hba1c'' := x)) = hypertension_points ulower data"
  "metabolic_points (data(''hba1c'' := x)) = metabolic_points data"
  "stroke_points ulower (data(''hba1c'' := x)) = stroke_points ulower data"
  by (simp_all add: cv_points_def hypertension_points_def metabolic_points_def
        stroke_points_def other_field)

lemma diabetes_points_hba1c:
  "diabetes_points ulower (data(''hba1c'' \<mapsto> v)) =
     diabetes_points ulower (data(''hba1c'' := None)) + pts (py_gt v (13 / 2)) 35"
  by (simp add: diabetes_points_def glucose_points_def other_field hba1c_same hba1c_absent
        pts_Inr)

text \<open>
  C6. A record without the key \<open>hba1c\<close>: the HbA1c test evaluates, to false; the
  function returns exactly what it returns on the same record with HbA1c 0; and whenever
  the function returns on the record with some HbA1c value \<open>v\<close>, it returns on the record
  without the key as well, with the same five counters, but for the 35 points that the
  diabetes counter gets when \<open>v > 6.5\<close>.
\<close>

theorem hba1c_absent_defaults:
  "hba1c_gt (data(''hba1c'' := None)) (13 / 2) = Inr False
   \<and> calculate_disease_risk ulower (data(''hba1c'' := None))
       = calculate_disease_risk ulower (data(''hba1c'' \<mapsto> PInt 0))
   \<and> (run ulower (data(''hba1c'' \<mapsto> v)) = Inr s \<longrightarrow>
        (\<exists>s0. run ulower (data(''hba1c'' := None)) = Inr s0
           \<and> diabetes_risk s
               = diabetes_risk s0 + (if py_gt v (13 / 2) = Inr True then 35 else 0)
           \<and> cv_risk s = cv_risk s0 \<and> hypertension_risk s = hypertension_risk s0
           \<and> metabolic_risk s = metabolic_risk s0 \<and> stroke_risk s = stroke_risk s0))"
proof -
  have test: "hba1c_gt (data(''hba1c'' := None)) (13 / 2) = Inr False"
    by (simp add: hba1c_absent)
  have same: "calculate_disease_risk ulower (data(''hba1c'' := None))
       = calculate_disease_risk ulower (data(''hba1c'' \<mapsto> PInt 0))"
    by (rule calculate_body_cong) (rule body_hba1c_absent)
  have rel: "run ulower (data(''hba1c'' \<mapsto> v)) = Inr s \<longrightarrow>
        (\<exists>s0. run ulower (data(''hba1c'' := None)) = Inr s0
           \<and> diabetes_risk s
               = diabetes_risk s0 + (if py_gt v (13 / 2) = Inr True then 35 else 0)
           \<and> cv_risk s = cv_risk s0 \<and> hypertension_risk s = hypertension_risk s0
           \<and> metabolic_risk s = metabolic_risk s0 \<and> stroke_risk s = stroke_risk s0)"
  proof
    assume r: "run ulower (data(''hba1c'' \<mapsto> v)) = Inr s"
    then have acc: "accepted ulower (data(''hba1c'' \<mapsto> v))"
      and s: "s = final_locals ulower (data(''hba1c'' \<mapsto> v))"
      by (simp_all add: run_iff)
    from acc have "accepted ulower (data(''hba1c'' := None))"
      by (rule accepted_hba1c_absent)
    then have r0: "run ulower (data(''hba1c'' := None)) = Inr (final_locals ulower (data(''hba1c'' := None)))"
      by (simp add: run_iff)
    show "\<exists>s0. run ulower (data(''hba1c'' := None)) = Inr s0
           \<and> diabetes_risk s
               = diabetes_risk s0 + (if py_gt v (13 / 2) = Inr True then 35 else 0)
           \<and> cv_risk s = cv_risk s0 \<and> hypertension_risk s = hypertension_risk s0
           \<and> metabolic_risk s = metabolic_risk s0 \<and> stroke_risk s = stroke_risk s0"
      by (rule exI [where x = "final_locals ulower (data(''hba1c'' := None))"])
         (simp add: r0 s final_locals_def points_hba1c diabetes_points_hba1c pts_def)
  qed
  from test same rel show ?thesis
    by (intro conjI)
qed

lemma hba1c_high_fields:
  "field_num (intake_example(''hba1c'' \<mapsto> PFloat (Finite 7))) ''age'' = Some 50"
  "field_str (intake_example(''hba1c'' \<mapsto> PFloat (Finite 7))) ''gender'' = Some ''Male''"
  "field_num (intake_example(''hba1c'' \<mapsto> PFloat (Finite 7))) ''bmi'' = Some 22"
  "field_num (intake_example(''hba1c'' \<mapsto> PFloat (Finite 7))) ''blood_pressure_systolic''
     = Some 150"
  "field_num (intake_example(''hba1c'' \<mapsto> PFloat (Finite 7))) ''blood_pressure_diastolic''
     = Some 70"
  "field_num (intake_example(''hba1c'' \<mapsto> PFloat (Finite 7))) ''cholesterol_total''
     = Some 200"
  "field_num (intake_example(''hba1c'' \<mapsto> PFloat (Finite 7))) ''cholesterol_hdl'' = Some 45"
  "field_num (intake_example(''hba1c'' \<mapsto> PFloat (Finite 7))) ''blood_sugar_fasting''
     = Some 90"
  "field_num (intake_example(''hba1c'' \<mapsto> PFloat (Finite 7))) ''hba1c'' = Some 7"
  "field_str (intake_example(''hba1c'' \<mapsto> PFloat (Finite 7))) ''smoking_status''
     = Some ''Never smoked''"
  "field_str (intake_example(''hba1c'' \<mapsto> PFloat (Finite 7))) ''alcohol_consumption''
     = Some ''Never''"
  "field_str (intake_example(''hba1c'' \<mapsto> PFloat (Finite 7))) ''exercise_frequency''
     = Some ''Daily''"
  "field_str (intake_example(''hba1c'' \<mapsto> PFloat (Finite 7))) ''family_history'' = Some []"
  by (simp_all add: field_num_upd field_str_upd intake_example_fields num_val_def)

lemma hba1c_high_run:
  "run ulower (intake_example(''hba1c'' \<mapsto> PFloat (Finite 7)))
     = Inr (final_locals ulower (intake_example(''hba1c'' \<mapsto> PFloat (Finite 7))))"
  by (simp add: run_iff accepted_fields [OF hba1c_high_fields])

theorem hba1c_absent_defaults_witness:
  "run example_lower (intake_example(''hba1c'' \<mapsto> PFloat (Finite 7)))
     = Inr (final_locals example_lower (intake_example(''hba1c'' \<mapsto> PFloat (Finite 7))))
   \<and> run example_lower (intake_example(''hba1c'' := None))
       = Inr (final_locals example_lower (intake_example(''hba1c'' := None)))
   \<and> diabetes_risk (final_locals example_lower (intake_example(''hba1c'' \<mapsto> PFloat (Finite 7))))
       = diabetes_risk (final_locals example_lower (intake_example(''hba1c'' := None))) + 35"
proof -
  from hba1c_absent_defaults [of intake_example example_lower "PFloat (Finite 7)"
      "final_locals example_lower (intake_example(''hba1c'' \<mapsto> PFloat (Finite 7)))",
      THEN conjunct2, THEN conjunct2, THEN mp, OF hba1c_high_run]
  obtain s0 where s0: "run example_lower (intake_example(''hba1c'' := None)) = Inr s0"
    and d: "diabetes_risk (final_locals example_lower (intake_example(''hba1c'' \<mapsto> PFloat (Finite 7))))
       = diabetes_risk s0 + (if py_gt (PFloat (Finite 7)) (13 / 2) = Inr True then 35 else 0)"
    by (elim exE conjE)
  from s0 have "s0 = final_locals example_lower (intake_example(''hba1c'' := None))"
    by (rule run_final)
  with s0 d hba1c_high_run show ?thesis
    by simp
qed

section \<open>The family history tests\<close>














section \<open>The categorical tests\<close>

lemma py_in_list_two: "py_in_list v [a, b] \<longleftrightarrow> v = PStr a \<or> v = PStr b"
  by (cases v) (auto simp: py_in_list_def)

lemma accepted_smoking:
  "accepted ulower (data(''smoking_status'' \<mapsto> v)) \<Longrightarrow> accepted ulower (data(''smoking_status'' \<mapsto> w))"
  by (simp add: ok_defs other_field field_in_same isOK_Inr)

lemma accepted_alcohol:
  "accepted ulower (data(''alcohol_consumption'' \<mapsto> v)) \<Longrightarrow>
     accepted ulower (data(''alcohol_consumption'' \<mapsto> w))"
  by (simp add: ok_defs other_field field_in_same isOK_Inr)

lemma accepted_exercise:
  "accepted ulower (data(''exercise_frequency'' \<mapsto> v)) \<Longrightarrow>
     accepted ulower (data(''exercise_frequency'' \<mapsto> w))"
  by (simp add: ok_defs other_field field_in_same isOK_Inr)

lemma accepted_gender:
  "accepted ulower (data(''gender'' \<mapsto> PStr g)) \<Longrightarrow> accepted ulower (data(''gender'' \<mapsto> PStr h))"
  by (simp add: ok_defs other_field gender_same isOK_Inr)

lemma points_smoking:
  "cv_points ulower (data(''smoking_status'' \<mapsto> v)) =
     cv_points ulower (data(''smoking_status'' \<mapsto> PStr ''Never smoked''))
       + (if v = PStr ''Current smoker'' \<or> v = PStr ''Heavy smoker'' then 30 else 0)"
  "stroke_points ulower (data(''smoking_status'' \<mapsto> v)) =
     stroke_points ulower (data(''smoking_status'' \<mapsto> PStr ''Never smoked''))
       + (if v = PStr ''Current smoker'' \<or> v = PStr ''Heavy smoker'' then 25 else 0)"
  by (simp_all add: cv_points_def stroke_points_def other_field field_in_same pts_Inr
        py_in_list_two)

lemma points_alcohol:
  "hypertension_points ulower (data(''alcohol_consumption'' \<mapsto> v)) =
     hypertension_points ulower (data(''alcohol_consumption'' \<mapsto> PStr ''Never''))
       + (if v = PStr ''Heavy drinker'' \<or> v = PStr ''Daily'' then 20 else 0)"
  by (simp add: hypertension_points_def other_field field_in_same pts_Inr py_in_list_two)

lemma points_exercise:
  "diabetes_points ulower (data(''exercise_frequency'' \<mapsto> v)) =
     diabetes_points ulower (data(''exercise_frequency'' \<mapsto> PStr ''Daily''))
       + (if v = PStr ''Never'' \<or> v = PStr ''Rarely'' then 15 else 0)"
  by (simp add: diabetes_points_def glucose_points_def other_field field_in_same pts_Inr
        py_in_list_two)

lemma points_gender:
  "cv_points ulower (data(''gender'' \<mapsto> PStr g)) =
     cv_points ulower (data(''gender'' \<mapsto> PStr ''Female''))
       + (if lower ulower g = ''male'' then 10 else 0)"
  by (simp add: cv_points_def other_field gender_same pts_Inr lower_def is_ascii_def
        ascii_lower_def lower_char_def)

text \<open>
  C10, as amended. The smoking, alcohol and exercise tests are exact, case-sensitive
  membership checks: against the record with smoking status "Never smoked", 30 points go
  to the cardiovascular counter and 25 to the stroke counter exactly when the field is the
  str "Current smoker" or the str "Heavy smoker"; against the record with alcohol
  consumption "Never", 20 points go to the hypertension counter exactly when the field is
  "Heavy drinker" or "Daily"; against the record with exercise frequency "Daily", 15 points
  go to the diabetes counter exactly when the field is "Never" or "Rarely". The gender
  test is not of this kind: like the family-history tests it ignores case, giving 10
  points to the cardiovascular counter exactly when the lower-cased field is "male".
\<close>

theorem categorical_tests:
  "(run ulower (data(''smoking_status'' \<mapsto> v)) = Inr s \<longrightarrow>
      (\<exists>s0. run ulower (data(''smoking_status'' \<mapsto> PStr ''Never smoked'')) = Inr s0
         \<and> cv_risk s = cv_risk s0
             + (if v = PStr ''Current smoker'' \<or> v = PStr ''Heavy smoker'' then 30 else 0)
         \<and> stroke_risk s = stroke_risk s0
             + (if v = PStr ''Current smoker'' \<or> v = PStr ''Heavy smoker'' then 25 else 0)))
   \<and> (run ulower (data(''alcohol_consumption'' \<mapsto> v)) = Inr s \<longrightarrow>
      (\<exists>s0. run ulower (data(''alcohol_consumption'' \<mapsto> PStr ''Never'')) = Inr s0
         \<and> hypertension_risk s = hypertension_risk s0
             + (if v = PStr ''Heavy drinker'' \<or> v = PStr ''Daily'' then 20 else 0)))
   \<and> (run ulower (data(''exercise_frequency'' \<mapsto> v)) = Inr s \<longrightarrow>
      (\<exists>s0. run ulower (data(''exercise_frequency'' \<mapsto> PStr ''Daily'')) = Inr s0
         \<and> diabetes_risk s = diabetes_risk s0
             + (if v = PStr ''Never'' \<or> v = PStr ''Rarely'' then 15 else 0)))
   \<and> (run ulower (data(''gender'' \<mapsto> PStr g)) = Inr s \<longrightarrow>
      (\<exists>s0. run ulower (data(''gender'' \<mapsto> PStr ''Female'')) = Inr s0
         \<and> cv_risk s = cv_risk s0 + (if lower ulower g = ''male'' then 10 else 0)))"
proof -
  have smoking: "run ulower (data(''smoking_status'' \<mapsto> v)) = Inr s \<longrightarrow>
      (\<exists>s0. run ulower (data(''smoking_status'' \<mapsto> PStr ''Never smoked'')) = Inr s0
         \<and> cv_risk s = cv_risk s0
             + (if v = PStr ''Current smoker'' \<or> v = PStr ''Heavy smoker'' then 30 else 0)
         \<and> stroke_risk s = stroke_risk s0
             + (if v = PStr ''Current smoker'' \<or> v = PStr ''Heavy smoker'' then 25 else 0))"
  proof
    assume "run ulower (data(''smoking_status'' \<mapsto> v)) = Inr s"
    then have acc: "accepted ulower (data(''smoking_status'' \<mapsto> v))"
      and s: "s = final_locals ulower (data(''smoking_status'' \<mapsto> v))"
      by (simp_all add: run_iff)
    from acc have "accepted ulower (data(''smoking_status'' \<mapsto> PStr ''Never smoked''))"
      by (rule accepted_smoking)
    then have r0: "run ulower (data(''smoking_status'' \<mapsto> PStr ''Never smoked''))
        = Inr (final_locals ulower (data(''smoking_status'' \<mapsto> PStr ''Never smoked'')))"
      by (simp add: run_iff)
    show "\<exists>s0. run ulower (data(''smoking_status'' \<mapsto> PStr ''Never smoked'')) = Inr s0
         \<and> cv_risk s = cv_risk s0
             + (if v = PStr ''Current smoker'' \<or> v = PStr ''Heavy smoker'' then 30 else 0)
         \<and> stroke_risk s = stroke_risk s0
             + (if v = PStr ''Current smoker'' \<or> v = PStr ''Heavy smoker'' then 25 else 0)"
      by (rule exI [where x = "final_locals ulower
              (data(''smoking_status'' \<mapsto> PStr ''Never smoked''))"])
         (use points_smoking [of ulower data v] in \<open>simp add: r0 s final_locals_def\<close>)
  qed
  have alcohol: "run ulower (data(''alcohol_consumption'' \<mapsto> v)) = Inr s \<longrightarrow>
      (\<exists>s0. run ulower (data(''alcohol_consumption'' \<mapsto> PStr ''Never'')) = Inr s0
         \<and> hypertension_risk s = hypertension_risk s0
             + (if v = PStr ''Heavy drinker'' \<or> v = PStr ''Daily'' then 20 else 0))"
  proof
    assume "run ulower (data(''alcohol_consumption'' \<mapsto> v)) = Inr s"
    then have acc: "accepted ulower (data(''alcohol_consumption'' \<mapsto> v))"
      and s: "s = final_locals ulower (data(''alcohol_consumption'' \<mapsto> v))"
      by (simp_all add: run_iff)
    from acc have "accepted ulower (data(''alcohol_consumption'' \<mapsto> PStr ''Never''))"
      by (rule accepted_alcohol)
    then have r0: "run ulower (data(''alcohol_consumption'' \<mapsto> PStr ''Never''))
        = Inr (final_locals ulower (data(''alcohol_consumption'' \<mapsto> PStr ''Never'')))"
      by (simp add: run_iff)
    show "\<exists>s0. run ulower (data(''alcohol_consumption'' \<mapsto> PStr ''Never'')) = Inr s0
         \<and> hypertension_risk s = hypertension_risk s0
             + (if v = PStr ''Heavy drinker'' \<or> v = PStr ''Daily'' then 20 else 0)"
      by (rule exI [where x = "final_locals ulower
              (data(''alcohol_consumption'' \<mapsto> PStr ''Never''))"])
         (use points_alcohol [of ulower data v] in \<open>simp add: r0 s final_locals_def\<close>)
  qed
  have exercise: "run ulower (data(''exercise_frequency'' \<mapsto> v)) = Inr s \<longrightarrow>
      (\<exists>s0. run ulower (data(''exercise_frequency'' \<mapsto> PStr ''Daily'')) = Inr s0
         \<and> diabetes_risk s = diabetes_risk s0
             + (if v = PStr ''Never'' \<or> v = PStr ''Rarely'' then 15 else 0))"
  proof
    assume "run ulower (data(''exercise_frequency'' \<mapsto> v)) = Inr s"
    then have acc: "accepted ulower (data(''exercise_frequency'' \<mapsto> v))"
      and s: "s = final_locals ulower (data(''exercise_frequency'' \<mapsto> v))"
      by (simp_all add: run_iff)
    from acc have "accepted ulower (data(''exercise_frequency'' \<mapsto> PStr ''Daily''))"
      by (rule accepted_exercise)
    then have r0: "run ulower (data(''exercise_frequency'' \<mapsto> PStr ''Daily''))
        = Inr (final_locals ulower (data(''exercise_frequency'' \<mapsto> PStr ''Daily'')))"
      by (simp add: run_iff)
    show "\<exists>s0. run ulower (data(''exercise_frequency'' \<mapsto> PStr ''Daily'')) = Inr s0
         \<and> diabetes_risk s = diabetes_risk s0
             + (if v = PStr ''Never'' \<or> v = PStr ''Rarely'' then 15 else 0)"
      by (rule exI [where x = "final_locals ulower
              (data(''exercise_frequency'' \<mapsto> PStr ''Daily''))"])
         (use points_exercise [of ulower data v] in \<open>simp add: r0 s final_locals_def\<close>)
  qed
  have gender: "run ulower (data(''gender'' \<mapsto> PStr g)) = Inr s \<longrightarrow>
      (\<exists>s0. run ulower (data(''gender'' \<mapsto> PStr ''Female'')) = Inr s0
         \<and> cv_risk s = cv_risk s0 + (if lower ulower g = ''male'' then 10 else 0))"
  proof
    assume "run ulower (data(''gender'' \<mapsto> PStr g)) = Inr s"
    then have acc: "accepted ulower (data(''gender'' \<mapsto> PStr g))"
      and s: "s = final_locals ulower (data(''gender'' \<mapsto> PStr g))"
      by (simp_all add: run_iff)
    from acc have "accepted ulower (data(''gender'' \<mapsto> PStr ''Female''))"
      by (rule accepted_gender)
    then have r0: "run ulower (data(''gender'' \<mapsto> PStr ''Female''))
        = Inr (final_locals ulower (data(''gender'' \<mapsto> PStr ''Female'')))"
      by (simp add: run_iff)
    show "\<exists>s0. run ulower (data(''gender'' \<mapsto> PStr ''Female'')) = Inr s0
         \<and> cv_risk s = cv_risk s0 + (if lower ulower g = ''male'' then 10 else 0)"
      by (rule exI [where x = "final_locals ulower (data(''gender'' \<mapsto> PStr ''Female''))"])
         (use points_gender [of ulower data g] in \<open>simp add: r0 s final_locals_def\<close>)
  qed
  from smoking alcohol exercise gender show ?thesis
    by (intro conjI)
qed

lemma intake_example_values:
  "intake_example ''smoking_status'' = Some (PStr ''Never smoked'')"
  "intake_example ''alcohol_consumption'' = Some (PStr ''Never'')"
  "intake_example ''exercise_frequency'' = Some (PStr ''Daily'')"
  "intake_example ''gender'' = Some (PStr ''Male'')"
  by (simp_all add: intake_example_def)

lemma intake_example_same:
  "intake_example(''smoking_status'' \<mapsto> PStr ''Never smoked'') = intake_example"
  "intake_example(''alcohol_consumption'' \<mapsto> PStr ''Never'') = intake_example"
  "intake_example(''exercise_frequency'' \<mapsto> PStr ''Daily'') = intake_example"
  "intake_example(''gender'' \<mapsto> PStr ''Male'') = intake_example"
  by (simp_all add: map_upd_triv intake_example_values)

lemma smoker_run:
  "run ulower (intake_example(''smoking_status'' \<mapsto> PStr ''Current smoker''))
     = Inr (final_locals ulower (intake_example(''smoking_status'' \<mapsto> PStr ''Current smoker'')))"
  using accepted_smoking [of ulower intake_example "PStr ''Never smoked''" "PStr ''Current smoker''"]
  by (simp add: run_iff intake_example_same intake_example_accepted)

lemma drinker_run:
  "run ulower (intake_example(''alcohol_consumption'' \<mapsto> PStr ''Daily''))
     = Inr (final_locals ulower (intake_example(''alcohol_consumption'' \<mapsto> PStr ''Daily'')))"
  using accepted_alcohol [of ulower intake_example "PStr ''Never''" "PStr ''Daily''"]
  by (simp add: run_iff intake_example_same intake_example_accepted)

lemma idle_run:
  "run ulower (intake_example(''exercise_frequency'' \<mapsto> PStr ''Rarely''))
     = Inr (final_locals ulower (intake_example(''exercise_frequency'' \<mapsto> PStr ''Rarely'')))"
  using accepted_exercise [of ulower intake_example "PStr ''Daily''" "PStr ''Rarely''"]
  by (simp add: run_iff intake_example_same intake_example_accepted)

lemma upper_gender_run:
  "run ulower (intake_example(''gender'' \<mapsto> PStr ''MALE''))
     = Inr (final_locals ulower (intake_example(''gender'' \<mapsto> PStr ''MALE'')))"
  using accepted_gender [of ulower intake_example "''Male''" "''MALE''"]
  by (simp add: run_iff intake_example_same intake_example_accepted)

lemma lower_MALE: "lower ulower ''MALE'' = ''male''"
  by (simp add: lower_def is_ascii_def ascii_lower_def lower_char_def)

theorem categorical_tests_witness:
  "run example_lower (intake_example(''smoking_status'' \<mapsto> PStr ''Current smoker''))
     = Inr (final_locals example_lower (intake_example(''smoking_status'' \<mapsto> PStr ''Current smoker'')))
   \<and> (\<exists>s0. run example_lower (intake_example(''smoking_status'' \<mapsto> PStr ''Never smoked'')) = Inr s0
        \<and> cv_risk (final_locals example_lower
             (intake_example(''smoking_status'' \<mapsto> PStr ''Current smoker'')))
            = cv_risk s0 + 30
        \<and> stroke_risk (final_locals example_lower
             (intake_example(''smoking_status'' \<mapsto> PStr ''Current smoker'')))
            = stroke_risk s0 + 25)
   \<and> run example_lower (intake_example(''alcohol_consumption'' \<mapsto> PStr ''Daily''))
       = Inr (final_locals example_lower (intake_example(''alcohol_consumption'' \<mapsto> PStr ''Daily'')))
   \<and> (\<exists>s0. run example_lower (intake_example(''alcohol_consumption'' \<mapsto> PStr ''Never'')) = Inr s0
        \<and> hypertension_risk (final_locals example_lower
             (intake_example(''alcohol_consumption'' \<mapsto> PStr ''Daily'')))
            = hypertension_risk s0 + 20)
   \<and> run example_lower (intake_example(''exercise_frequency'' \<mapsto> PStr ''Rarely''))
       = Inr (final_locals example_lower (intake_example(''exercise_frequency'' \<mapsto> PStr ''Rarely'')))
   \<and> (\<exists>s0. run example_lower (intake_example(''exercise_frequency'' \<mapsto> PStr ''Daily'')) = Inr s0
        \<and> diabetes_risk (final_locals example_lower
             (intake_example(''exercise_frequency'' \<mapsto> PStr ''Rarely'')))
            = diabetes_risk s0 + 15)
   \<and> run example_lower (intake_example(''gender'' \<mapsto> PStr ''MALE''))
       = Inr (final_locals example_lower (intake_example(''gender'' \<mapsto> PStr ''MALE'')))
   \<and> (\<exists>s0. run example_lower (intake_example(''gender'' \<mapsto> PStr ''Female'')) = Inr s0
        \<and> cv_risk (final_locals example_lower (intake_example(''gender'' \<mapsto> PStr ''MALE'')))
            = cv_risk s0 + 10)"
proof -
  note c2 = conjunct2
  from categorical_tests [of example_lower intake_example "PStr ''Current smoker''"
      "final_locals example_lower (intake_example(''smoking_status'' \<mapsto> PStr ''Current smoker''))",
      THEN conjunct1, THEN mp, OF smoker_run]
  have a: "\<exists>s0. run example_lower (intake_example(''smoking_status'' \<mapsto> PStr ''Never smoked'')) = Inr s0
        \<and> cv_risk (final_locals example_lower
             (intake_example(''smoking_status'' \<mapsto> PStr ''Current smoker'')))
            = cv_risk s0 + 30
        \<and> stroke_risk (final_locals example_lower
             (intake_example(''smoking_status'' \<mapsto> PStr ''Current smoker'')))
            = stroke_risk s0 + 25"
    by simp
  from categorical_tests [of example_lower intake_example "PStr ''Daily''"
      "final_locals example_lower (intake_example(''alcohol_consumption'' \<mapsto> PStr ''Daily''))",
      THEN c2, THEN conjunct1, THEN mp, OF drinker_run]
  have b: "\<exists>s0. run example_lower (intake_example(''alcohol_consumption'' \<mapsto> PStr ''Never'')) = Inr s0
        \<and> hypertension_risk (final_locals example_lower
             (intake_example(''alcohol_consumption'' \<mapsto> PStr ''Daily'')))
            = hypertension_risk s0 + 20"
    by simp
  from categorical_tests [of example_lower intake_example "PStr ''Rarely''"
      "final_locals example_lower (intake_example(''exercise_frequency'' \<mapsto> PStr ''Rarely''))",
      THEN c2, THEN c2, THEN conjunct1, THEN mp, OF idle_run]
  have c: "\<exists>s0. run example_lower (intake_example(''exercise_frequency'' \<mapsto> PStr ''Daily'')) = Inr s0
        \<and> diabetes_risk (final_locals example_lower
             (intake_example(''exercise_frequency'' \<mapsto> PStr ''Rarely'')))
            = diabetes_risk s0 + 15"
    by simp
  from categorical_tests [of example_lower intake_example _
      "final_locals example_lower (intake_example(''gender'' \<mapsto> PStr ''MALE''))" "''MALE''",
      THEN c2, THEN c2, THEN c2, THEN mp, OF upper_gender_run]
  have d: "\<exists>s0. run example_lower (intake_example(''gender'' \<mapsto> PStr ''Female'')) = Inr s0
        \<and> cv_risk (final_locals example_lower (intake_example(''gender'' \<mapsto> PStr ''MALE'')))
            = cv_risk s0 + 10"
    by (simp add: lower_MALE)
  from smoker_run a drinker_run b idle_run c upper_gender_run d show ?thesis
    by (intro conjI)
qed

text \<open>
  C10 as it was stated fails on the gender field: on the sample record, the genders
  "MALE" and "male" both give the cardiovascular score 55, ten more than "Female".
\<close>

lemma gender_variant_fields:
  "field_num (intake_example(''gender'' \<mapsto> PStr g)) ''age'' = Some 50"
  "field_str (intake_example(''gender'' \<mapsto> PStr g)) ''gender'' = Some g"
  "field_num (intake_example(''gender'' \<mapsto> PStr g)) ''bmi'' = Some 22"
  "field_num (intake_example(''gender'' \<mapsto> PStr g)) ''blood_pressure_systolic'' = Some 150"
  "field_num (intake_example(''gender'' \<mapsto> PStr g)) ''blood_pressure_diastolic'' = Some 70"
  "field_num (intake_example(''gender'' \<mapsto> PStr g)) ''cholesterol_total'' = Some 200"
  "field_num (intake_example(''gender'' \<mapsto> PStr g)) ''cholesterol_hdl'' = Some 45"
  "field_num (intake_example(''gender'' \<mapsto> PStr g)) ''blood_sugar_fasting'' = Some 90"
  "field_num (intake_example(''gender'' \<mapsto> PStr g)) ''hba1c'' = Some (11 / 2)"
  "field_str (intake_example(''gender'' \<mapsto> PStr g)) ''smoking_status'' = Some ''Never smoked''"
  "field_str (intake_example(''gender'' \<mapsto> PStr g)) ''alcohol_consumption'' = Some ''Never''"
  "field_str (intake_example(''gender'' \<mapsto> PStr g)) ''exercise_frequency'' = Some ''Daily''"
  "field_str (intake_example(''gender'' \<mapsto> PStr g)) ''family_history'' = Some []"
  by (simp_all add: field_num_upd field_str_upd intake_example_fields)

lemma gender_variant_result:
  "calculate_disease_risk ulower (intake_example(''gender'' \<mapsto> PStr g)) =
     Inr ([(''Cardiovascular Disease'', if lower ulower g = ''male'' then 55 else 45),
           (''Type 2 Diabetes'', 15), (''Hypertension'', 30),
           (''Metabolic Syndrome'', 35), (''Stroke'', 25)],
          [''Monitor blood pressure regularly and consider medication if advised by doctor'',
           ''Regular health check-ups every 6-12 months'',
           ''Follow a balanced diet rich in fruits and vegetables''])"
proof -
  let ?d = "intake_example(''gender'' \<mapsto> PStr g)"
  have acc: "accepted ulower ?d"
    by (rule accepted_fields [OF gender_variant_fields])
  have risks: "expected_risks ulower ?d =
      [(''Cardiovascular Disease'', if lower ulower g = ''male'' then 55 else 45),
       (''Type 2 Diabetes'', 15), (''Hypertension'', 30),
       (''Metabolic Syndrome'', 35), (''Stroke'', 25)]"
    unfolding expected_risks_def cv_points_def diabetes_points_def hypertension_points_def
      metabolic_points_def stroke_points_def glucose_points_def
    by (simp add: gender_variant_fields num_gt_field num_lt_field gender_field field_in_str
          family_field hba1c_field [OF gender_variant_fields(9)] py_or_Inr pts_Inr lower_Nil)
  have recs: "expected_recs ?d =
      [''Monitor blood pressure regularly and consider medication if advised by doctor'',
       ''Regular health check-ups every 6-12 months'',
       ''Follow a balanced diet rich in fruits and vegetables'']"
    unfolding expected_recs_def triggered_def cv_recs_def diabetes_recs_def
      hypertension_recs_def glucose_recs_def closing_def
    by (simp add: gender_variant_fields num_gt_field num_lt_field gender_field field_in_str
          family_field hba1c_field [OF gender_variant_fields(9)] py_or_Inr rec_if_Inr)
  from acc risks recs show ?thesis
    by (simp add: calculate_iff)
qed

lemma lower_male: "lower ulower ''male'' = ''male''"
  by (simp add: lower_def is_ascii_def ascii_lower_def lower_char_def)

lemma lower_Female: "lower ulower ''Female'' = ''female''"
  by (simp add: lower_def is_ascii_def ascii_lower_def lower_char_def)

theorem gender_test_ignores_case:
  "calculate_disease_risk example_lower (intake_example(''gender'' \<mapsto> PStr ''MALE'')) =
     Inr ([(''Cardiovascular Disease'', 55), (''Type 2 Diabetes'', 15), (''Hypertension'', 30),
           (''Metabolic Syndrome'', 35), (''Stroke'', 25)],
          [''Monitor blood pressure regularly and consider medication if advised by doctor'',
           ''Regular health check-ups every 6-12 months'',
           ''Follow a balanced diet rich in fruits and vegetables''])
   \<and> calculate_disease_risk example_lower (intake_example(''gender'' \<mapsto> PStr ''male'')) =
     Inr ([(''Cardiovascular Disease'', 55), (''Type 2 Diabetes'', 15), (''Hypertension'', 30),
           (''Metabolic Syndrome'', 35), (''Stroke'', 25)],
          [''Monitor blood pressure regularly and consider medication if advised by doctor'',
           ''Regular health check-ups every 6-12 months'',
           ''Follow a balanced diet rich in fruits and vegetables''])
   \<and> calculate_disease_risk example_lower (intake_example(''gender'' \<mapsto> PStr ''Female'')) =
     Inr ([(''Cardiovascular Disease'', 45), (''Type 2 Diabetes'', 15), (''Hypertension'', 30),
           (''Metabolic Syndrome'', 35), (''Stroke'', 25)],
          [''Monitor blood pressure regularly and consider medication if advised by doctor'',
           ''Regular health check-ups every 6-12 months'',
           ''Follow a balanced diet rich in fruits and vegetables''])
   \<and> ''MALE'' \<noteq> ''male''"
  by (simp add: gender_variant_result lower_MALE lower_male lower_Female)

section \<open>The prediction history\<close>

lemma sbind_getitem:
  "sbind (getitem d k) f = Inr r \<longleftrightarrow> d k \<noteq> None \<and> f (field_val d k) = Inr r"
  by (cases "d k") (simp_all add: sbind_def getitem_def field_val_def)

lemma sbind_Inr: "sbind (Inr v) f = f v"
  by (simp add: sbind_def)

lemma insert_prediction_Inr:
  "insert_prediction now r db = Inr db' \<longleftrightarrow>
     p_patient_name r \<noteq> PNone \<and> p_age r \<noteq> PNone \<and> p_gender r \<noteq> PNone
     \<and> db' = db\<lparr>prediction_rows := prediction_rows db @
                    [r\<lparr>p_id := prediction_seq db + 1, p_created_at := now\<rparr>],
                  prediction_seq := prediction_seq db + 1\<rparr>"
  by (auto simp: insert_prediction_def)

lemma if_Inr: "(if c then m else Inl e) = Inr r \<longleftrightarrow> c \<and> m = Inr r"
  by simp

lemma save_prediction_iff:
  "save_prediction now u d rs recs db = Inr db' \<longleftrightarrow>
     storable u d
     \<and> db' = db\<lparr>prediction_rows := prediction_rows db @
                    [stored_row (prediction_seq db + 1)
                       \<lparr>sub_time = now, sub_user = u, sub_patient = d, sub_risks = rs,
                         sub_recommendations = recs\<rparr>],
                  prediction_seq := prediction_seq db + 1\<rparr>"
  unfolding save_prediction_def Let_def
  by (simp add: sbind_getitem sbind_Inr if_Inr insert_prediction_Inr storable_def
        prediction_keys_def stored_row_def conj_ac)

lemma save_all_iff:
  "save_all calls db = Inr db' \<longleftrightarrow>
     list_all (\<lambda>c. storable (sub_user c) (sub_patient c)) calls
     \<and> db' = db\<lparr>prediction_rows := prediction_rows db @ written (prediction_seq db) calls,
                  prediction_seq := prediction_seq db + length calls\<rparr>"
proof (induction calls arbitrary: db)
  case Nil
  show ?case
    by auto
next
  case (Cons c cs)
  have c: "\<lparr>sub_time = sub_time c, sub_user = sub_user c, sub_patient = sub_patient c,
            sub_risks = sub_risks c, sub_recommendations = sub_recommendations c\<rparr> = c"
    by (cases c) simp
  have step: "sbind (save_prediction (sub_time c) (sub_user c) (sub_patient c) (sub_risks c)
                 (sub_recommendations c) db) f = Inr db' \<longleftrightarrow>
      storable (sub_user c) (sub_patient c)
      \<and> f (db\<lparr>prediction_rows := prediction_rows db @ [stored_row (prediction_seq db + 1) c],
               prediction_seq := prediction_seq db + 1\<rparr>) = Inr db'" for f
  proof (cases "storable (sub_user c) (sub_patient c)")
    case True
    then have "save_prediction (sub_time c) (sub_user c) (sub_patient c) (sub_risks c)
                 (sub_recommendations c) db
        = Inr (db\<lparr>prediction_rows := prediction_rows db @ [stored_row (prediction_seq db + 1) c],
                   prediction_seq := prediction_seq db + 1\<rparr>)"
      by (simp add: save_prediction_iff c)
    with True show ?thesis
      by (simp add: sbind_def)
  next
    case False
    then have "save_prediction (sub_time c) (sub_user c) (sub_patient c) (sub_risks c)
                 (sub_recommendations c) db \<noteq> Inr x" for x
      by (simp add: save_prediction_iff)
    then obtain e where "save_prediction (sub_time c) (sub_user c) (sub_patient c) (sub_risks c)
                 (sub_recommendations c) db = Inl e"
      by (cases "save_prediction (sub_time c) (sub_user c) (sub_patient c) (sub_risks c)
                 (sub_recommendations c) db") auto
    with False show ?thesis
      by (simp add: sbind_def)
  qed
  show ?case
    by (simp add: step Cons.IH)
qed

lemma mset_insert_desc: "mset (insert_desc r xs) = add_mset r (mset xs)"
  by (induction xs) simp_all

lemma set_insert_desc: "set (insert_desc r xs) = insert r (set xs)"
  by (induction xs) auto

lemma newest_first_insert_desc:
  "newest_first xs \<Longrightarrow> newest_first (insert_desc r xs)"
  unfolding newest_first_def
  by (induction xs) (auto simp: set_insert_desc)

lemma mset_order_by: "mset (order_by_created_at_desc rows) = mset rows"
  unfolding order_by_created_at_desc_def
  by (induction rows) (simp_all add: mset_insert_desc)

lemma newest_first_order_by: "newest_first (order_by_created_at_desc rows)"
  unfolding order_by_created_at_desc_def
  by (induction rows) (simp_all add: newest_first_insert_desc, simp add: newest_first_def)

lemma mset_get_user_predictions:
  "mset (get_user_predictions u db) = filter_mset (\<lambda>r. p_user_id r = u) (mset (prediction_rows db))"
  by (simp add: get_user_predictions_def mset_order_by)

lemma written_user: "map p_user_id (written seq calls) = map sub_user calls"
  by (induction calls arbitrary: seq) (simp_all add: stored_row_def)

lemma written_time: "map p_created_at (written seq calls) = map sub_time calls"
  by (induction calls arbitrary: seq) (simp_all add: stored_row_def)

lemma written_id: "map p_id (written seq calls) = [seq + 1 ..< seq + 1 + length calls]"
proof (induction calls arbitrary: seq)
  case Nil
  show ?case
    by simp
next
  case (Cons c cs)
  have "[seq + 1 ..< seq + 1 + length (c # cs)]
      = (seq + 1) # [Suc (seq + 1) ..< seq + 1 + length (c # cs)]"
    by (rule upt_conv_Cons) simp
  also have "seq + 1 + length (c # cs) = seq + 1 + 1 + length cs"
    by simp
  finally have "[seq + 1 ..< seq + 1 + length (c # cs)]
      = (seq + 1) # [seq + 1 + 1 ..< seq + 1 + 1 + length cs]"
    by simp
  moreover have "map p_id (written seq (c # cs))
      = (seq + 1) # map p_id (written (seq + 1) cs)"
    by (simp add: stored_row_def)
  ultimately show ?case
    by (simp only: Cons.IH)
qed

lemma length_filter_written:
  "length (filter (\<lambda>r. p_user_id r = u) (written seq calls))
     = length (filter (\<lambda>c. sub_user c = u) calls)"
  by (induction calls arbitrary: seq) (simp_all add: stored_row_def)

text \<open>
  C7. The history query returns no row for an account that owns no row of the table.
  After a list of submissions has been saved, the table is the old table followed by one
  row per submission, in the order of the calls, with the next keys, the submitting
  accounts and the clock readings of the calls. The query for an account then returns
  exactly the rows of the table owned by that account (as a multiset): the rows it returned
  before and the rows written for that account, so as many more as the account made
  submissions; every row returned is owned by the account; and the rows come newest
  first by \<open>created_at\<close>.
\<close>

theorem history_query:
  assumes "save_all calls db = Inr db'"
  shows "((\<forall>r \<in> set (prediction_rows db). p_user_id r \<noteq> u) \<longrightarrow> get_user_predictions u db = [])
       \<and> prediction_rows db' = prediction_rows db @ written (prediction_seq db) calls
       \<and> map p_user_id (written (prediction_seq db) calls) = map sub_user calls
       \<and> map p_created_at (written (prediction_seq db) calls) = map sub_time calls
       \<and> map p_id (written (prediction_seq db) calls)
           = [prediction_seq db + 1 ..< prediction_seq db + 1 + length calls]
       \<and> mset (get_user_predictions u db')
           = filter_mset (\<lambda>r. p_user_id r = u) (mset (prediction_rows db'))
       \<and> mset (get_user_predictions u db')
           = mset (get_user_predictions u db)
             + filter_mset (\<lambda>r. p_user_id r = u) (mset (written (prediction_seq db) calls))
       \<and> length (get_user_predictions u db')
           = length (get_user_predictions u db) + length (filter (\<lambda>c. sub_user c = u) calls)
       \<and> (\<forall>r \<in> set (get_user_predictions u db'). p_user_id r = u)
       \<and> newest_first (get_user_predictions u db')"
proof -
  from assms have rows: "prediction_rows db'
      = prediction_rows db @ written (prediction_seq db) calls"
    by (simp add: save_all_iff)
  have none: "(\<forall>r \<in> set (prediction_rows db). p_user_id r \<noteq> u) \<longrightarrow>
      get_user_predictions u db = []"
  proof
    assume "\<forall>r \<in> set (prediction_rows db). p_user_id r \<noteq> u"
    then have "filter (\<lambda>r. p_user_id r = u) (prediction_rows db) = []"
      by (simp add: filter_empty_conv)
    then show "get_user_predictions u db = []"
      by (simp add: get_user_predictions_def order_by_created_at_desc_def)
  qed
  have m: "mset (get_user_predictions u db')
      = filter_mset (\<lambda>r. p_user_id r = u) (mset (prediction_rows db'))"
    by (rule mset_get_user_predictions)
  have m2: "mset (get_user_predictions u db')
      = mset (get_user_predictions u db)
        + filter_mset (\<lambda>r. p_user_id r = u) (mset (written (prediction_seq db) calls))"
    by (simp add: mset_get_user_predictions rows)
  have fl: "size (filter_mset (\<lambda>r. p_user_id r = u) (mset (written (prediction_seq db) calls)))
      = length (filter (\<lambda>c. sub_user c = u) calls)"
    by (metis mset_filter size_mset length_filter_written)
  from m2 have "size (mset (get_user_predictions u db'))
      = size (mset (get_user_predictions u db))
        + size (filter_mset (\<lambda>r. p_user_id r = u) (mset (written (prediction_seq db) calls)))"
    by simp
  with fl have len: "length (get_user_predictions u db')
      = length (get_user_predictions u db) + length (filter (\<lambda>c. sub_user c = u) calls)"
    by simp
  have "set_mset (mset (get_user_predictions u db'))
      = set_mset (filter_mset (\<lambda>r. p_user_id r = u) (mset (prediction_rows db')))"
    by (simp only: m)
  then have own: "\<forall>r \<in> set (get_user_predictions u db'). p_user_id r = u"
    by simp
  have new: "newest_first (get_user_predictions u db')"
    by (simp add: get_user_predictions_def newest_first_order_by)
  from none rows written_user written_time written_id m m2 len own new show ?thesis
    by (intro conjI)
qed

lemma storable_intake_example: "int u < 2 ^ 63 \<Longrightarrow> storable u intake_example"
  by (simp add: storable_def prediction_keys_def intake_example_def field_val_def
        fits_int64_def sql_value_def get_default_def)

lemma stored_row_sel:
  "p_id (stored_row i c) = i"
  "p_user_id (stored_row i c) = sub_user c"
  "p_created_at (stored_row i c) = sub_time c"
  by (simp_all add: stored_row_def)

lemma history_example_storable:
  "list_all (\<lambda>c. storable (sub_user c) (sub_patient c)) history_example"
  by (simp add: history_example_def submission_example_def storable_intake_example)

lemma history_example_length: "length history_example = 3"
  by (simp add: history_example_def)

lemma history_example_saved: "save_all history_example empty_predictions = Inr history_table"
  unfolding save_all_iff
  by (simp add: history_example_storable history_example_length empty_predictions_def
        history_table_def)

lemma submission_example_sel:
  "sub_user (submission_example t u) = u"
  "sub_time (submission_example t u) = t"
  by (simp_all add: submission_example_def)

lemma history_example_query:
  "get_user_predictions 1 history_table =
     [stored_row 3 (submission_example 30 1), stored_row 1 (submission_example 10 1)]"
  by (simp add: get_user_predictions_def order_by_created_at_desc_def history_table_def
        history_example_def stored_row_sel submission_example_sel eval_nat_numeral)

theorem history_query_witness:
  "save_all history_example empty_predictions = Inr history_table
   \<and> get_user_predictions 3 empty_predictions = []
   \<and> map p_id (prediction_rows history_table) = [1, 2, 3]
   \<and> map p_user_id (prediction_rows history_table) = [1, 2, 1]
   \<and> map p_created_at (prediction_rows history_table) = [10, 20, 30]
   \<and> length (get_user_predictions 1 history_table) = 2
   \<and> newest_first (get_user_predictions 1 history_table)
   \<and> map p_id (get_user_predictions 1 history_table) = [3, 1]
   \<and> map p_created_at (get_user_predictions 1 history_table) = [30, 10]"
proof -
  note t1 = history_query [OF history_example_saved, of 1]
  note t3 = history_query [OF history_example_saved, of 3]
  have e: "prediction_rows empty_predictions = []" "prediction_seq empty_predictions = 0"
    by (simp_all add: empty_predictions_def)
  have u: "map sub_user history_example = [1, 2, 1]"
    and t: "map sub_time history_example = [10, 20, 30]"
    and l: "length history_example = 3"
    by (simp_all add: history_example_def submission_example_def)
  from t3 [THEN conjunct1] have none: "get_user_predictions 3 empty_predictions = []"
    by (simp add: e)
  from t1 have rows: "prediction_rows history_table = written 0 history_example"
    by (simp add: e)
  from t1 have ids: "map p_id (prediction_rows history_table) = [1, 2, 3]"
    by (simp add: rows e l upt_rec)
  from t1 have users: "map p_user_id (prediction_rows history_table) = [1, 2, 1]"
    by (simp add: rows e u)
  from t1 have times: "map p_created_at (prediction_rows history_table) = [10, 20, 30]"
    by (simp add: rows e t)
  have "get_user_predictions 1 empty_predictions = []"
    by (simp add: get_user_predictions_def order_by_created_at_desc_def e)
  with t1 have len: "length (get_user_predictions 1 history_table) = 2"
    by (simp add: history_example_def submission_example_def)
  from t1 have new: "newest_first (get_user_predictions 1 history_table)"
    by simp
  have q: "map p_id (get_user_predictions 1 history_table) = [3, 1]"
    "map p_created_at (get_user_predictions 1 history_table) = [30, 10]"
    unfolding history_example_query by (simp_all add: stored_row_sel submission_example_sel)
  from history_example_saved none ids users times len new q show ?thesis
    by (intro conjI)
qed

section \<open>Registration\<close>

lemma unique_violation_cases:
  "unique_violation ord rows username email =
     (if username \<in> set (map u_username rows) \<and> email \<in> set (map u_email rows)
        then Some (case ord of Username_first \<Rightarrow> ''users.username''
                     | Email_first \<Rightarrow> ''users.email'')
      else if username \<in> set (map u_username rows) then Some ''users.username''
      else if email \<in> set (map u_email rows) then Some ''users.email''
      else None)"
  by (cases ord) (simp_all add: unique_violation_def Let_def)

lemma message_username:
  "py_in_str ''username'' (''UNIQUE constraint failed: '' @ ''users.username'')"
  by simp

lemma message_email:
  "\<not> py_in_str ''username'' (''UNIQUE constraint failed: '' @ ''users.email'')"
  "py_in_str ''email'' (''UNIQUE constraint failed: '' @ ''users.email'')"
  by simp_all

lemma create_user_username:
  assumes "unique_violation ord (user_rows db) username email = Some ''users.username''"
  shows "create_user sha256_hex ord now username email password full_name dob gender db
           = (Inr (False, ''Username already exists!''), db)"
  using message_username by (simp add: create_user_def insert_user_def assms)

lemma create_user_email:
  assumes "unique_violation ord (user_rows db) username email = Some ''users.email''"
  shows "create_user sha256_hex ord now username email password full_name dob gender db
           = (Inr (False, ''Email already registered!''), db)"
  using message_email by (simp add: create_user_def insert_user_def assms)

lemma create_user_new:
  assumes "unique_violation ord (user_rows db) username email = None"
  shows "create_user sha256_hex ord now username email password full_name dob gender db
           = (Inr (True, ''Account created successfully!''),
              db\<lparr>user_rows := user_rows db @
                    [\<lparr>u_id = user_seq db + 1, u_username = username, u_email = email,
                      u_password_hash = hash_password sha256_hex password,
                      u_full_name = full_name, u_date_of_birth = dob, u_gender = gender,
                      u_created_at = now, u_last_login = None\<rparr>],
                  user_seq := user_seq db + 1\<rparr>)"
  by (simp add: create_user_def insert_user_def assms)

text \<open>
  C8, as amended. \<open>create_user\<close> always returns a pair, whatever the table holds. When
  only the username is taken the pair is \<open>False\<close> with the username message, when only
  the email is taken it is \<open>False\<close> with the email message, and in both cases the table
  is left as it was. When both are taken the pair is \<open>False\<close> with the message of the one
  column that the engine names, the table again unchanged. When neither is taken the pair
  is \<open>True\<close> and the table has one more row, with the next key.
\<close>

theorem registration_conflicts:
  "(username \<in> set (map u_username (user_rows db)) \<and> email \<notin> set (map u_email (user_rows db))
      \<longrightarrow> create_user sha256_hex ord now username email password full_name dob gender db
            = (Inr (False, ''Username already exists!''), db))
   \<and> (username \<notin> set (map u_username (user_rows db)) \<and> email \<in> set (map u_email (user_rows db))
      \<longrightarrow> create_user sha256_hex ord now username email password full_name dob gender db
            = (Inr (False, ''Email already registered!''), db))
   \<and> (username \<in> set (map u_username (user_rows db)) \<and> email \<in> set (map u_email (user_rows db))
      \<longrightarrow> create_user sha256_hex ord now username email password full_name dob gender db
            = (Inr (False, case ord of Username_first \<Rightarrow> ''Username already exists!''
                             | Email_first \<Rightarrow> ''Email already registered!''), db))
   \<and> (username \<notin> set (map u_username (user_rows db)) \<and> email \<notin> set (map u_email (user_rows db))
      \<longrightarrow> create_user sha256_hex ord now username email password full_name dob gender db
            = (Inr (True, ''Account created successfully!''),
               db\<lparr>user_rows := user_rows db @
                     [\<lparr>u_id = user_seq db + 1, u_username = username, u_email = email,
                       u_password_hash = hash_password sha256_hex password,
                       u_full_name = full_name, u_date_of_birth = dob, u_gender = gender,
                       u_created_at = now, u_last_login = None\<rparr>],
                   user_seq := user_seq db + 1\<rparr>))
   \<and> (\<exists>r. fst (create_user sha256_hex ord now username email password full_name dob gender db)
            = Inr r)"
proof -
  let ?u = "username \<in> set (map u_username (user_rows db))"
  let ?e = "email \<in> set (map u_email (user_rows db))"
  let ?c = "create_user sha256_hex ord now username email password full_name dob gender db"
  have a: "?u \<and> \<not> ?e \<longrightarrow> ?c = (Inr (False, ''Username already exists!''), db)"
    by (intro impI create_user_username) (simp add: unique_violation_cases)
  have b: "\<not> ?u \<and> ?e \<longrightarrow> ?c = (Inr (False, ''Email already registered!''), db)"
    by (intro impI create_user_email) (simp add: unique_violation_cases)
  have c: "?u \<and> ?e \<longrightarrow> ?c = (Inr (False, case ord of
        Username_first \<Rightarrow> ''Username already exists!''
      | Email_first \<Rightarrow> ''Email already registered!''), db)"
  proof (cases ord)
    case Username_first
    then show ?thesis
      using create_user_username [of ord db username email]
      by (simp add: unique_violation_cases)
  next
    case Email_first
    then show ?thesis
      using create_user_email [of ord db username email]
      by (simp add: unique_violation_cases)
  qed
  have d: "\<not> ?u \<and> \<not> ?e \<longrightarrow> ?c
      = (Inr (True, ''Account created successfully!''),
         db\<lparr>user_rows := user_rows db @
               [\<lparr>u_id = user_seq db + 1, u_username = username, u_email = email,
                 u_password_hash = hash_password sha256_hex password,
                 u_full_name = full_name, u_date_of_birth = dob, u_gender = gender,
                 u_created_at = now, u_last_login = None\<rparr>],
             user_seq := user_seq db + 1\<rparr>)"
    by (intro impI create_user_new) (simp add: unique_violation_cases)
  have e: "\<exists>r. fst ?c = Inr r"
  proof (cases ?u; cases ?e)
    assume "?u" "?e"
    with c show ?thesis
      by auto
  next
    assume "?u" "\<not> ?e"
    with a show ?thesis
      by auto
  next
    assume "\<not> ?u" "?e"
    with b show ?thesis
      by auto
  next
    assume "\<not> ?u" "\<not> ?e"
    with d show ?thesis
      by auto
  qed
  from a b c d e show ?thesis
    by (intro conjI)
qed

lemma demo_users_taken:
  "''demo'' \<in> set (map u_username (user_rows demo_users))"
  "''demo@example.com'' \<in> set (map u_email (user_rows demo_users))"
  "''guest'' \<notin> set (map u_username (user_rows demo_users))"
  "''guest@example.com'' \<notin> set (map u_email (user_rows demo_users))"
  by (simp_all add: demo_users_def)

theorem registration_conflicts_witness:
  "create_user example_digest Email_first 5 ''demo'' ''guest@example.com'' ''pw'' ''Guest''
       ''2000-01-01'' ''Other'' demo_users
     = (Inr (False, ''Username already exists!''), demo_users)
   \<and> create_user example_digest Email_first 5 ''guest'' ''demo@example.com'' ''pw'' ''Guest''
       ''2000-01-01'' ''Other'' demo_users
     = (Inr (False, ''Email already registered!''), demo_users)
   \<and> create_user example_digest Email_first 5 ''demo'' ''demo@example.com'' ''demo123''
       ''Demo User'' ''1990-01-01'' ''Other'' demo_users
     = (Inr (False, ''Email already registered!''), demo_users)
   \<and> fst (create_user example_digest Email_first 5 ''guest'' ''guest@example.com'' ''pw''
       ''Guest'' ''2000-01-01'' ''Other'' demo_users)
     = Inr (True, ''Account created successfully!'')
   \<and> map u_id (user_rows (snd (create_user example_digest Email_first 5 ''guest''
       ''guest@example.com'' ''pw'' ''Guest'' ''2000-01-01'' ''Other'' demo_users))) = [1, 2]"
proof -
  note c2 = conjunct2
  have a: "create_user example_digest Email_first 5 ''demo'' ''guest@example.com'' ''pw''
       ''Guest'' ''2000-01-01'' ''Other'' demo_users
     = (Inr (False, ''Username already exists!''), demo_users)"
    by (rule registration_conflicts [of "''demo''" demo_users "''guest@example.com''"
        example_digest Email_first 5 "''pw''" "''Guest''" "''2000-01-01''" "''Other''",
        THEN conjunct1, THEN mp])
       (intro conjI demo_users_taken)
  have b: "create_user example_digest Email_first 5 ''guest'' ''demo@example.com'' ''pw''
       ''Guest'' ''2000-01-01'' ''Other'' demo_users
     = (Inr (False, ''Email already registered!''), demo_users)"
    by (rule registration_conflicts [of "''guest''" demo_users "''demo@example.com''"
        example_digest Email_first 5 "''pw''" "''Guest''" "''2000-01-01''" "''Other''",
        THEN c2, THEN conjunct1, THEN mp])
       (intro conjI demo_users_taken)
  have c: "create_user example_digest Email_first 5 ''demo'' ''demo@example.com'' ''demo123''
       ''Demo User'' ''1990-01-01'' ''Other'' demo_users
     = (Inr (False, ''Email already registered!''), demo_users)"
    using registration_conflicts [of "''demo''" demo_users "''demo@example.com''"
        example_digest Email_first 5 "''demo123''" "''Demo User''" "''1990-01-01''" "''Other''",
        THEN c2, THEN c2, THEN conjunct1, THEN mp,
        OF conjI [OF demo_users_taken(1) demo_users_taken(2)]]
    by simp
  have d: "create_user example_digest Email_first 5 ''guest'' ''guest@example.com'' ''pw''
       ''Guest'' ''2000-01-01'' ''Other'' demo_users
     = (Inr (True, ''Account created successfully!''),
        demo_users\<lparr>user_rows := user_rows demo_users @
               [\<lparr>u_id = user_seq demo_users + 1, u_username = ''guest'',
                 u_email = ''guest@example.com'',
                 u_password_hash = hash_password example_digest ''pw'',
                 u_full_name = ''Guest'', u_date_of_birth = ''2000-01-01'',
                 u_gender = ''Other'', u_created_at = 5, u_last_login = None\<rparr>],
             user_seq := user_seq demo_users + 1\<rparr>)"
    by (rule registration_conflicts [of "''guest''" demo_users "''guest@example.com''"
        example_digest Email_first 5 "''pw''" "''Guest''" "''2000-01-01''" "''Other''",
        THEN c2, THEN c2, THEN c2, THEN conjunct1, THEN mp])
       (intro conjI demo_users_taken)
  have d1: "fst (create_user example_digest Email_first 5 ''guest'' ''guest@example.com''
       ''pw'' ''Guest'' ''2000-01-01'' ''Other'' demo_users)
     = Inr (True, ''Account created successfully!'')"
    by (simp add: d)
  have d2: "map u_id (user_rows (snd (create_user example_digest Email_first 5 ''guest''
       ''guest@example.com'' ''pw'' ''Guest'' ''2000-01-01'' ''Other'' demo_users))) = [1, 2]"
    by (simp add: d) (simp add: demo_users_def)
  from a b c d1 d2 show ?thesis
    by (intro conjI)
qed

text \<open>
  C8 as it was stated fails when the username and the email are both taken, as they are
  at the second demo login, which registers the account \<open>demo\<close> again: the engine names
  one column only, so under either order of the two indexes one of the two colliding
  fields is not the one the message identifies.
\<close>

theorem both_fields_collide:
  "''demo'' \<in> set (map u_username (user_rows demo_users))
   \<and> ''demo@example.com'' \<in> set (map u_email (user_rows demo_users))
   \<and> create_user example_digest Username_first 5 ''demo'' ''demo@example.com'' ''demo123''
       ''Demo User'' ''1990-01-01'' ''Other'' demo_users
     = (Inr (False, ''Username already exists!''), demo_users)
   \<and> create_user example_digest Email_first 5 ''demo'' ''demo@example.com'' ''demo123''
       ''Demo User'' ''1990-01-01'' ''Other'' demo_users
     = (Inr (False, ''Email already registered!''), demo_users)
   \<and> ''Username already exists!'' \<noteq> ''Email already registered!''"
proof -
  have v: "unique_violation Username_first (user_rows demo_users) ''demo'' ''demo@example.com''
      = Some ''users.username''"
    "unique_violation Email_first (user_rows demo_users) ''demo'' ''demo@example.com''
      = Some ''users.email''"
    using demo_users_taken(1) demo_users_taken(2) by (simp_all add: unique_violation_cases)
  have a: "create_user example_digest Username_first 5 ''demo'' ''demo@example.com''
       ''demo123'' ''Demo User'' ''1990-01-01'' ''Other'' demo_users
     = (Inr (False, ''Username already exists!''), demo_users)"
    by (rule create_user_username [OF v(1)])
  have b: "create_user example_digest Email_first 5 ''demo'' ''demo@example.com''
       ''demo123'' ''Demo User'' ''1990-01-01'' ''Other'' demo_users
     = (Inr (False, ''Email already registered!''), demo_users)"
    by (rule create_user_email [OF v(2)])
  have ne: "''Username already exists!'' \<noteq> ''Email already registered!''"
    by simp
  from demo_users_taken(1) demo_users_taken(2) a b ne show ?thesis
    by (intro conjI)
qed

section \<open>Authentication\<close>

lemma fetch_None:
  "fetch_by_username db username = None \<longleftrightarrow> username \<notin> set (map u_username (user_rows db))"
  by (auto simp: fetch_by_username_def find_None_iff)

lemma fetch_Some:
  "fetch_by_username db username = Some user \<Longrightarrow>
     user \<in> set (user_rows db) \<and> u_username user = username"
  by (auto simp: fetch_by_username_def find_Some_iff)

lemma find_snoc: "\<forall>y \<in> set xs. \<not> P y \<Longrightarrow> P x \<Longrightarrow> find P (xs @ [x]) = Some x"
  by (induction xs) auto

text \<open>
  C9. \<open>authenticate_user\<close> returns the pair \<open>(False, None)\<close>, and leaves the table as it
  was, both when no row has the username and when the row with the username holds another
  digest than that of the password: the two results are the same value. It returns
  \<open>True\<close> with the key, name and email of a row only when that row has the username and
  holds the digest of the password; then it also stamps the row with the time of the
  login. Any result other than the failure pair is of that kind. After a registration that
  succeeded, a login under the registered name succeeds exactly with a password that has
  the digest of the registered one.
\<close>

theorem authentication_failures_identical:
  "(username \<notin> set (map u_username (user_rows db)) \<longrightarrow>
      authenticate_user sha256_hex now username password db = ((False, None), db))
   \<and> (fetch_by_username db username = Some user
        \<and> hash_password sha256_hex password \<noteq> u_password_hash user \<longrightarrow>
      authenticate_user sha256_hex now username password db = ((False, None), db))
   \<and> (fetch_by_username db username = Some user
        \<and> hash_password sha256_hex password = u_password_hash user \<longrightarrow>
      authenticate_user sha256_hex now username password db
        = ((True, Some \<lparr>info_id = u_id user, info_username = username,
                         info_full_name = u_full_name user, info_email = u_email user\<rparr>),
           update_last_login now (u_id user) db))
   \<and> (fetch_by_username db username = Some user \<longrightarrow>
        user \<in> set (user_rows db) \<and> u_username user = username)
   \<and> (authenticate_user sha256_hex now username password db = ((False, None), db)
      \<or> (\<exists>row \<in> set (user_rows db). u_username row = username
            \<and> hash_password sha256_hex password = u_password_hash row
            \<and> fst (authenticate_user sha256_hex now username password db)
                = (True, Some \<lparr>info_id = u_id row, info_username = username,
                                info_full_name = u_full_name row,
                                info_email = u_email row\<rparr>)))
   \<and> (fst (create_user sha256_hex ord registered username email password0 full_name dob
              gender db) = Inr (True, message) \<longrightarrow>
        fst (fst (authenticate_user sha256_hex now username password
               (snd (create_user sha256_hex ord registered username email password0
                  full_name dob gender db))))
          = (hash_password sha256_hex password = hash_password sha256_hex password0))"
proof -
  let ?a = "authenticate_user sha256_hex now username password db"
  have a: "username \<notin> set (map u_username (user_rows db)) \<longrightarrow> ?a = ((False, None), db)"
    using fetch_None [of db username] by (auto simp: authenticate_user_def)
  have b: "fetch_by_username db username = Some user
        \<and> hash_password sha256_hex password \<noteq> u_password_hash user \<longrightarrow>
      ?a = ((False, None), db)"
    by (simp add: authenticate_user_def verify_password_def)
  have c: "fetch_by_username db username = Some user
        \<and> hash_password sha256_hex password = u_password_hash user \<longrightarrow>
      ?a = ((True, Some \<lparr>info_id = u_id user, info_username = username,
                         info_full_name = u_full_name user, info_email = u_email user\<rparr>),
           update_last_login now (u_id user) db)"
    by (simp add: authenticate_user_def verify_password_def)
  have d: "fetch_by_username db username = Some user \<longrightarrow>
        user \<in> set (user_rows db) \<and> u_username user = username"
    by (intro impI fetch_Some)
  have e: "?a = ((False, None), db)
      \<or> (\<exists>row \<in> set (user_rows db). u_username row = username
            \<and> hash_password sha256_hex password = u_password_hash row
            \<and> fst ?a = (True, Some \<lparr>info_id = u_id row, info_username = username,
                                info_full_name = u_full_name row,
                                info_email = u_email row\<rparr>))"
  proof (cases "fetch_by_username db username")
    case None
    then show ?thesis
      by (simp add: authenticate_user_def)
  next
    case (Some row)
    from fetch_Some [OF Some] have row: "row \<in> set (user_rows db)" "u_username row = username"
      by simp_all
    show ?thesis
    proof (cases "hash_password sha256_hex password = u_password_hash row")
      case True
      with Some have "fst ?a = (True, Some \<lparr>info_id = u_id row, info_username = username,
          info_full_name = u_full_name row, info_email = u_email row\<rparr>)"
        by (simp add: authenticate_user_def verify_password_def)
      with row True show ?thesis
        by (intro disjI2 bexI [where x = row] conjI)
    next
      case False
      with Some show ?thesis
        by (simp add: authenticate_user_def verify_password_def)
    qed
  qed
  have f: "fst (create_user sha256_hex ord registered username email password0 full_name dob
              gender db) = Inr (True, message) \<longrightarrow>
        fst (fst (authenticate_user sha256_hex now username password
               (snd (create_user sha256_hex ord registered username email password0
                  full_name dob gender db))))
          = (hash_password sha256_hex password = hash_password sha256_hex password0)"
  proof
    let ?c = "create_user sha256_hex ord registered username email password0 full_name dob
        gender db"
    let ?row = "\<lparr>u_id = user_seq db + 1, u_username = username, u_email = email,
        u_password_hash = hash_password sha256_hex password0, u_full_name = full_name,
        u_date_of_birth = dob, u_gender = gender, u_created_at = registered,
        u_last_login = None\<rparr>"
    assume ok: "fst ?c = Inr (True, message)"
    have free: "username \<notin> set (map u_username (user_rows db))
        \<and> email \<notin> set (map u_email (user_rows db))"
    proof (rule ccontr)
      assume "\<not> (username \<notin> set (map u_username (user_rows db))
        \<and> email \<notin> set (map u_email (user_rows db)))"
      then have "unique_violation ord (user_rows db) username email = Some ''users.username''
          \<or> unique_violation ord (user_rows db) username email = Some ''users.email''"
        by (cases ord) (auto simp: unique_violation_cases)
      then have "fst (fst (projr (fst ?c), ())) = False"
        using create_user_username [of ord db username email sha256_hex registered password0
            full_name dob gender]
          create_user_email [of ord db username email sha256_hex registered password0
            full_name dob gender]
        by auto
      with ok show False
        by simp
    qed
    then have "unique_violation ord (user_rows db) username email = None"
      by (simp add: unique_violation_cases)
    then have rows: "user_rows (snd ?c) = user_rows db @ [?row]"
      by (simp add: create_user_new)
    from free have "fetch_by_username (snd ?c) username = Some ?row"
      unfolding fetch_by_username_def rows by (intro find_snoc) auto
    then show "fst (fst (authenticate_user sha256_hex now username password (snd ?c)))
        = (hash_password sha256_hex password = hash_password sha256_hex password0)"
      by (simp add: authenticate_user_def verify_password_def)
  qed
  from a b c d e f show ?thesis
    by (intro conjI)
qed

lemma demo_users_fetch:
  "fetch_by_username demo_users ''demo'' = Some (hd (user_rows demo_users))"
  "''nobody'' \<notin> set (map u_username (user_rows demo_users))"
  by (simp_all add: fetch_by_username_def demo_users_def)

lemma guest_registration:
  "fst (create_user example_digest Email_first 5 ''guest'' ''guest@example.com'' ''pw''
     ''Guest'' ''2000-01-01'' ''Other'' demo_users)
     = Inr (True, ''Account created successfully!'')"
proof -
  have "unique_violation Email_first (user_rows demo_users) ''guest'' ''guest@example.com''
      = None"
    using demo_users_taken(3) demo_users_taken(4) by (simp add: unique_violation_cases)
  then show ?thesis
    by (simp add: create_user_new)
qed

theorem authentication_failures_identical_witness:
  "authenticate_user example_digest 7 ''nobody'' ''demo123'' demo_users
     = ((False, None), demo_users)
   \<and> authenticate_user example_digest 7 ''demo'' ''guess'' demo_users
     = ((False, None), demo_users)
   \<and> fst (authenticate_user example_digest 7 ''demo'' ''demo123'' demo_users)
     = (True, Some \<lparr>info_id = 1, info_username = ''demo'', info_full_name = ''Demo User'',
                     info_email = ''demo@example.com''\<rparr>)
   \<and> map u_last_login
        (user_rows (snd (authenticate_user example_digest 7 ''demo'' ''demo123'' demo_users)))
     = [Some 7]
   \<and> fst (fst (authenticate_user example_digest 7 ''guest'' ''pw''
        (snd (create_user example_digest Email_first 5 ''guest'' ''guest@example.com'' ''pw''
           ''Guest'' ''2000-01-01'' ''Other'' demo_users))))
   \<and> \<not> fst (fst (authenticate_user example_digest 7 ''guest'' ''guess''
        (snd (create_user example_digest Email_first 5 ''guest'' ''guest@example.com'' ''pw''
           ''Guest'' ''2000-01-01'' ''Other'' demo_users))))"
proof -
  note c2 = conjunct2
  have a: "authenticate_user example_digest 7 ''nobody'' ''demo123'' demo_users
     = ((False, None), demo_users)"
    by (rule authentication_failures_identical [of "''nobody''" demo_users example_digest 7
        "''demo123''", THEN conjunct1, THEN mp])
       (rule demo_users_fetch(2))
  have b: "authenticate_user example_digest 7 ''demo'' ''guess'' demo_users
     = ((False, None), demo_users)"
  proof (rule authentication_failures_identical [of "''demo''" demo_users example_digest 7
        "''guess''" "hd (user_rows demo_users)", THEN c2, THEN conjunct1, THEN mp])
    have "hash_password example_digest ''guess'' \<noteq> u_password_hash (hd (user_rows demo_users))"
      by (simp add: demo_users_def hash_password_def example_digest_def)
    with demo_users_fetch(1)
    show "fetch_by_username demo_users ''demo'' = Some (hd (user_rows demo_users))
        \<and> hash_password example_digest ''guess'' \<noteq> u_password_hash (hd (user_rows demo_users))"
      by (rule conjI)
  qed
  have c: "authenticate_user example_digest 7 ''demo'' ''demo123'' demo_users
      = ((True, Some \<lparr>info_id = u_id (hd (user_rows demo_users)), info_username = ''demo'',
                       info_full_name = u_full_name (hd (user_rows demo_users)),
                       info_email = u_email (hd (user_rows demo_users))\<rparr>),
         update_last_login 7 (u_id (hd (user_rows demo_users))) demo_users)"
  proof (rule authentication_failures_identical [of "''demo''" demo_users example_digest 7
        "''demo123''" "hd (user_rows demo_users)", THEN c2, THEN c2, THEN conjunct1, THEN mp])
    have "hash_password example_digest ''demo123'' = u_password_hash (hd (user_rows demo_users))"
      by (simp add: demo_users_def hash_password_def)
    with demo_users_fetch(1)
    show "fetch_by_username demo_users ''demo'' = Some (hd (user_rows demo_users))
        \<and> hash_password example_digest ''demo123'' = u_password_hash (hd (user_rows demo_users))"
      by (rule conjI)
  qed
  have c1: "fst (authenticate_user example_digest 7 ''demo'' ''demo123'' demo_users)
     = (True, Some \<lparr>info_id = 1, info_username = ''demo'', info_full_name = ''Demo User'',
                     info_email = ''demo@example.com''\<rparr>)"
    by (simp add: c) (simp add: demo_users_def)
  have c2': "map u_last_login
        (user_rows (snd (authenticate_user example_digest 7 ''demo'' ''demo123'' demo_users)))
     = [Some 7]"
    by (simp add: c) (simp add: demo_users_def update_last_login_def)
  have d1: "fst (fst (authenticate_user example_digest 7 ''guest'' ''pw''
        (snd (create_user example_digest Email_first 5 ''guest'' ''guest@example.com'' ''pw''
           ''Guest'' ''2000-01-01'' ''Other'' demo_users))))"
    using authentication_failures_identical [where sha256_hex = example_digest
        and ord = Email_first and registered = 5 and username = "''guest''"
        and email = "''guest@example.com''" and ?password0.0 = "''pw''"
        and full_name = "''Guest''" and dob = "''2000-01-01''" and gender = "''Other''"
        and db = demo_users and now = 7 and password = "''pw''",
        THEN c2, THEN c2, THEN c2, THEN c2, THEN c2, THEN mp, OF guest_registration]
    by simp
  have d2: "\<not> fst (fst (authenticate_user example_digest 7 ''guest'' ''guess''
        (snd (create_user example_digest Email_first 5 ''guest'' ''guest@example.com'' ''pw''
           ''Guest'' ''2000-01-01'' ''Other'' demo_users))))"
    using authentication_failures_identical [where sha256_hex = example_digest
        and ord = Email_first and registered = 5 and username = "''guest''"
        and email = "''guest@example.com''" and ?password0.0 = "''pw''"
        and full_name = "''Guest''" and dob = "''2000-01-01''" and gender = "''Other''"
        and db = demo_users and now = 7 and password = "''guess''",
        THEN c2, THEN c2, THEN c2, THEN c2, THEN c2, THEN mp, OF guest_registration]
    by (simp add: hash_password_def example_digest_def)
  from a b c1 c2' d1 d2 show ?thesis
    by (intro conjI)
qed

end
